theory Spec2Isabelle
  imports Complex_Main
begin

chapter \<open>The VirusTotal dashboard: severity, pie chart and cached lookups\<close>

text \<open>
  A shallow embedding of the two screens of the application: the file screen
  (\<open>FileScannerScreen\<close>: \<open>pickDocument\<close>, \<open>generateHash\<close>, \<open>checkVirusTotal\<close>) and the
  hash screen (\<open>HomeScreen\<close>: \<open>checkHash\<close>), with the helpers they share word for word
  (\<open>getSeverityLevel\<close>, \<open>polarToCartesian\<close>, \<open>describeArc\<close>, \<open>AnimatedPieChart\<close>). The
  screens' state is passed explicitly; storage, network, file picker, file reader, digest
  and JSON are collaborators whose answers are parameters of the model.
\<close>

section \<open>JavaScript numbers\<close>

text \<open>
  Every numeric quantity of the program (the four detection counts, the slice values,
  the chart geometry, the animation progress) is a JavaScript \<open>number\<close>. The model keeps
  the exceptional values, because the chart code divides by a total that may be zero:
  a finite number is a real, and \<open>Infinity\<close>, \<open>-Infinity\<close> and \<open>NaN\<close> are values of
  their own. Rounding, overflow of finite results and the sign of zero are not modelled:
  finite arithmetic is exact, and a zero divisor is taken as \<open>+0\<close> (the only divisor of
  the program is a sum that starts from \<open>+0\<close>, which IEEE addition never turns into
  \<open>-0\<close>).
\<close>

datatype number = Finite real | Infinity | NegInfinity | NaN

fun sign_of :: "number \<Rightarrow> real" where
  "sign_of (Finite a) = sgn a"
| "sign_of Infinity = 1"
| "sign_of NegInfinity = - 1"
| "sign_of NaN = 0"

definition inf_of_sign :: "real \<Rightarrow> number" where
  "inf_of_sign s = (if s = 0 then NaN else if 0 < s then Infinity else NegInfinity)"

text \<open>\<open>a + b\<close>\<close>

fun js_add :: "number \<Rightarrow> number \<Rightarrow> number" where
  "js_add (Finite a) (Finite b) = Finite (a + b)"
| "js_add NaN b = NaN"
| "js_add a NaN = NaN"
| "js_add Infinity NegInfinity = NaN"
| "js_add NegInfinity Infinity = NaN"
| "js_add Infinity b = Infinity"
| "js_add a Infinity = Infinity"
| "js_add NegInfinity b = NegInfinity"
| "js_add a NegInfinity = NegInfinity"

text \<open>\<open>-a\<close> and \<open>a - b\<close>\<close>

fun js_neg :: "number \<Rightarrow> number" where
  "js_neg (Finite a) = Finite (- a)"
| "js_neg Infinity = NegInfinity"
| "js_neg NegInfinity = Infinity"
| "js_neg NaN = NaN"

definition js_sub :: "number \<Rightarrow> number \<Rightarrow> number" where
  "js_sub a b = js_add a (js_neg b)"

text \<open>\<open>a * b\<close>: an infinite factor times zero is \<open>NaN\<close>.\<close>

fun js_mul :: "number \<Rightarrow> number \<Rightarrow> number" where
  "js_mul (Finite a) (Finite b) = Finite (a * b)"
| "js_mul NaN b = NaN"
| "js_mul a NaN = NaN"
| "js_mul a b = inf_of_sign (sign_of a * sign_of b)"

text \<open>
  \<open>a / b\<close>: a finite number over zero is \<open>NaN\<close> when the numerator is zero and an
  infinity of the numerator's sign otherwise; nothing is raised.
\<close>

fun js_div :: "number \<Rightarrow> number \<Rightarrow> number" where
  "js_div (Finite a) (Finite b) =
     (if b \<noteq> 0 then Finite (a / b) else inf_of_sign (sgn a))"
| "js_div NaN b = NaN"
| "js_div a NaN = NaN"
| "js_div (Finite a) b = Finite 0"
| "js_div a (Finite b) = inf_of_sign (sign_of a * (if 0 \<le> b then 1 else - 1))"
| "js_div a b = NaN"

text \<open>\<open>a <= b\<close> and \<open>a === b\<close>: every comparison with \<open>NaN\<close> is false.\<close>

fun js_le :: "number \<Rightarrow> number \<Rightarrow> bool" where
  "js_le (Finite a) (Finite b) = (a \<le> b)"
| "js_le NaN b = False"
| "js_le a NaN = False"
| "js_le NegInfinity b = True"
| "js_le a Infinity = True"
| "js_le a b = False"

definition js_strict_eq :: "number \<Rightarrow> number \<Rightarrow> bool" where
  "js_strict_eq a b = (a \<noteq> NaN \<and> a = b)"

text \<open>\<open>Math.cos\<close>, \<open>Math.sin\<close> and \<open>Math.PI\<close>\<close>

fun Math_cos :: "number \<Rightarrow> number" where
  "Math_cos (Finite a) = Finite (cos a)"
| "Math_cos a = NaN"

fun Math_sin :: "number \<Rightarrow> number" where
  "Math_sin (Finite a) = Finite (sin a)"
| "Math_sin a = NaN"

definition Math_PI :: number where
  "Math_PI = Finite pi"

section \<open>Data model\<close>

text \<open>\<open>interface ScanResult\<close>, the same in both screens.\<close>

record Stats =
  malicious :: number
  suspicious :: number
  undetected :: number
  harmless :: number

record VendorResult =
  vendor :: string
  result :: string
  category :: string

record ScanResult =
  stats :: Stats
  vendors :: "VendorResult list"

section \<open>Severity classifier\<close>

text \<open>
  \<open>getSeverityLevel\<close> reads the screen's \<open>results\<close> state (\<open>shaResults\<close> on the hash
  screen); the two screens carry the same body. The state it reads is the argument.
\<close>

definition getSeverityLevel :: "ScanResult option \<Rightarrow> string" where
  "getSeverityLevel results =
     (case results of
        None \<Rightarrow> ''Unknown''
      | Some r \<Rightarrow>
          (let totalBad = js_add (malicious (stats r)) (suspicious (stats r)) in
           if js_strict_eq totalBad (Finite 0) then ''Clean''
           else if js_le totalBad (Finite 2) then ''Low Risk''
           else if js_le totalBad (Finite 5) then ''Moderate Risk''
           else if js_le totalBad (Finite 10) then ''High Risk''
           else ''Critical Risk''))"

section \<open>Pie chart\<close>

text \<open>
  \<open>polarToCartesian\<close>: the object \<open>{x, y}\<close> is the pair \<open>(x, y)\<close>.
\<close>

definition polarToCartesian :: "number \<Rightarrow> number \<Rightarrow> number \<Rightarrow> number \<Rightarrow> number \<times> number" where
  "polarToCartesian centerX centerY radius angleInDegrees =
     (let angleInRadians =
            js_div (js_mul (js_sub angleInDegrees (Finite 90)) Math_PI) (Finite 180)
      in (js_add centerX (js_mul radius (Math_cos angleInRadians)),
          js_add centerY (js_mul radius (Math_sin angleInRadians))))"

text \<open>
  \<open>describeArc\<close> builds an array of path commands and numbers and joins it with
  spaces. The model returns the array before the join: how a number prints is not
  modelled.
\<close>

datatype path_item = PStr string | PNum number

definition describeArc ::
  "number \<Rightarrow> number \<Rightarrow> number \<Rightarrow> number \<Rightarrow> number \<Rightarrow> path_item list" where
  "describeArc x y radius startAngle endAngle =
     (let start = polarToCartesian x y radius endAngle;
          end' = polarToCartesian x y radius startAngle;
          largeArcFlag = (if js_le (js_sub endAngle startAngle) (Finite 180) then ''0'' else ''1'')
      in [PStr ''M'', PNum (fst start), PNum (snd start),
          PStr ''A'', PNum radius, PNum radius, PNum (Finite 0), PStr largeArcFlag,
          PNum (Finite 0), PNum (fst end'), PNum (snd end'),
          PStr ''L'', PNum x, PNum y, PStr ''Z''])"

record SliceData =
  slice_value :: number
  slice_color :: string

text \<open>
  One \<open><Path>\<close> element. \<open>path_key\<close> is the index in \<open>key={`slice-${index}`}\<close>.
  \<open>arc_start\<close> and \<open>arc_end\<close> are not attributes of the element: they record the
  \<open>startAngle\<close> and \<open>endAngle\<close> arguments handed to \<open>describeArc\<close> for it, which is
  what the statements about angular spans speak of.
\<close>

record PathElem =
  path_key :: nat
  path_d :: "path_item list"
  path_fill :: string
  arc_start :: number
  arc_end :: number

text \<open>
  The callback of \<open>data.map\<close>, run over the slices in order. \<open>cumulativeAngle\<close> is the
  variable the callback updates, \<open>index\<close> its second argument; \<open>width\<close>, \<open>height\<close>,
  \<open>outerRadius\<close>, \<open>total\<close> (here \<open>total'\<close>) and \<open>progress\<close> are the variables it closes
  over.
\<close>

fun slicePaths ::
  "number \<Rightarrow> number \<Rightarrow> number \<Rightarrow> number \<Rightarrow> number \<Rightarrow> number \<Rightarrow> nat \<Rightarrow> SliceData list
     \<Rightarrow> PathElem list" where
  "slicePaths width height outerRadius total' progress cumulativeAngle index [] = []"
| "slicePaths width height outerRadius total' progress cumulativeAngle index (slice # rest) =
     (let sliceAngle = js_mul (js_div (slice_value slice) total') (Finite 360);
          animatedEndAngle = js_add cumulativeAngle (js_mul sliceAngle progress);
          path = describeArc (js_div width (Finite 2)) (js_div height (Finite 2)) outerRadius
                   cumulativeAngle animatedEndAngle
      in \<lparr>path_key = index, path_d = path, path_fill = slice_color slice,
           arc_start = cumulativeAngle, arc_end = animatedEndAngle\<rparr>
         # slicePaths width height outerRadius total' progress
             (js_add cumulativeAngle sliceAngle) (Suc index) rest)"

text \<open>\<open>data.reduce((sum, item) => sum + item.value, 0)\<close>\<close>

definition total_of :: "SliceData list \<Rightarrow> number" where
  "total_of data = foldl (\<lambda>sum item. js_add sum (slice_value item)) (Finite 0) data"

text \<open>
  The rendered tree: \<open><Svg width height>\<close> around one group
  \<open><G rotation="-90" origin={`${width / 2}, ${height / 2}`}>\<close> around the paths.
\<close>

record Svg =
  svg_width :: number
  svg_height :: number
  g_rotation :: number
  g_origin :: "number \<times> number"
  g_paths :: "PathElem list"

text \<open>
  \<open>AnimatedPieChart\<close> at one value of its \<open>progress\<close> state. The component's
  \<open>innerRadius\<close> property is never read and is left out; the defaults of the other
  properties are \<open>width = 250\<close>, \<open>height = 250\<close>, \<open>outerRadius = 100\<close>, and both
  screens pass \<open>200\<close>, \<open>200\<close>, \<open>90\<close>.
\<close>

definition AnimatedPieChart :: "SliceData list \<Rightarrow> number \<Rightarrow> number \<Rightarrow> number \<Rightarrow> number \<Rightarrow> Svg" where
  "AnimatedPieChart data width height outerRadius progress =
     (let total' = total_of data in
      \<lparr>svg_width = width, svg_height = height,
       g_rotation = Finite (- 90),
       g_origin = (js_div width (Finite 2), js_div height (Finite 2)),
       g_paths = slicePaths width height outerRadius total' progress (Finite 0) 0 data\<rparr>)"

text \<open>
  Where a point of a path lands on the screen. The SVG library turns the group's
  \<open>rotation\<close> and \<open>origin\<close> attributes into the transform \<open>rotate(a, ox, oy)\<close>: the
  matrix \<open>[cos a, sin a, -sin a, cos a]\<close> about \<open>(ox, oy)\<close>, with \<open>a\<close> in degrees, in the
  SVG frame (x to the right, y downwards).
\<close>

definition rotate_about :: "number \<Rightarrow> number \<times> number \<Rightarrow> number \<times> number \<Rightarrow> number \<times> number" where
  "rotate_about a origin p =
     (let r = js_div (js_mul a Math_PI) (Finite 180);
          dx = js_sub (fst p) (fst origin);
          dy = js_sub (snd p) (snd origin)
      in (js_add (fst origin) (js_sub (js_mul dx (Math_cos r)) (js_mul dy (Math_sin r))),
          js_add (snd origin) (js_add (js_mul dx (Math_sin r)) (js_mul dy (Math_cos r)))))"

definition on_screen :: "Svg \<Rightarrow> number \<times> number \<Rightarrow> number \<times> number" where
  "on_screen svg p = rotate_about (g_rotation svg) (g_origin svg) p"

text \<open>
  The point of a path where the slice's start boundary meets the circle: \<open>describeArc\<close>
  ends its arc there (\<open>end.x\<close>, \<open>end.y\<close>, items 9 and 10 of the array).
\<close>

definition start_boundary :: "PathElem \<Rightarrow> path_item \<times> path_item" where
  "start_boundary e = (path_d e ! 9, path_d e ! 10)"

text \<open>
  \<open>pieData\<close> of the file screen; \<open>danger\<close> and \<open>success\<close> are the theme's colours. The
  hash screen builds the same four slices and differs in the last colour only.
\<close>

definition pieData :: "string \<Rightarrow> string \<Rightarrow> ScanResult option \<Rightarrow> SliceData list" where
  "pieData danger success results =
     (case results of
        None \<Rightarrow> []
      | Some r \<Rightarrow>
          [\<lparr>slice_value = malicious (stats r), slice_color = danger\<rparr>,
           \<lparr>slice_value = suspicious (stats r), slice_color = ''#FFC107''\<rparr>,
           \<lparr>slice_value = harmless (stats r), slice_color = success\<rparr>,
           \<lparr>slice_value = undetected (stats r), slice_color = ''#9E9E9E''\<rparr>])"

section \<open>Collaborators of the lookup flows\<close>

text \<open>
  A thrown value or rejected promise, as far as the handlers read it:
  \<open>err.response?.data?.error?.message\<close> (absent unless the HTTP client attached a
  response body with one) and \<open>err.message\<close>.
\<close>

record jserror =
  response_message :: "string option"
  message :: string

text \<open>
  The body of a successful report response, below \<open>response.data.data.attributes\<close>:
  \<open>last_analysis_results\<close> (the per-engine object, as \<open>Object.entries\<close> lists it) and
  \<open>last_analysis_stats\<close>. The per-engine object is absent when it or an object on the
  path to it is missing from the body; reading it then throws a \<open>TypeError\<close>. An engine's
  \<open>result\<close> may be absent or \<open>null\<close>. The interface \<open>ScanResult\<close> types \<open>stats\<close> and
  \<open>category\<close> as present, and so does the model.
\<close>

record engine_data =
  engine_result :: "string option"
  engine_category :: string

record report =
  last_analysis_results :: "(string \<times> engine_data) list option"
  last_analysis_stats :: Stats

text \<open>The asset that the document picker returns; \<open>size\<close> may be absent.\<close>

record asset =
  asset_name :: string
  asset_size :: "number option"
  asset_uri :: string

text \<open>
  The external calls a flow makes, in the order it makes them: the cache
  (\<open>AsyncStorage.getItem\<close>, \<open>AsyncStorage.setItem\<close>), the report request
  (\<open>axios.get\<close> with its URL and \<open>x-apikey\<close> header) and the read of the picked file
  (\<open>fetch(fileUri)\<close>).
\<close>

datatype effect =
    GetItem string
  | SetItem string string
  | HttpGet string string
  | FetchUri string

text \<open>
  The world outside the screens: what \<open>AsyncStorage\<close> holds and the log of external
  calls made so far.
\<close>

record world =
  storage :: "string \<Rightarrow> string option"
  trace :: "effect list"

text \<open>
  What the collaborators answer. Each awaited call either resolves or rejects with an
  error. \<open>getItem_rejects\<close> and \<open>setItem_rejects\<close> say whether the storage call rejects;
  when it does not, storage behaves as a key-value map. \<open>JSON_parse\<close> throws on text that
  is not JSON; text that parses is taken to have the shape of a \<open>ScanResult\<close>, as the
  code's cast does. \<open>readAsText\<close> is the \<open>FileReader\<close>: it delivers the text to
  \<open>onload\<close>, or fails, which fires an error event that the screen does not listen to.
\<close>

record deps =
  axios_get :: "string \<Rightarrow> jserror + report"
  JSON_stringify :: "ScanResult \<Rightarrow> string"
  JSON_parse :: "string \<Rightarrow> jserror + ScanResult"
  getItem_rejects :: "string \<Rightarrow> jserror option"
  setItem_rejects :: "string \<Rightarrow> string \<Rightarrow> jserror option"
  getDocumentAsync :: "jserror + asset list option"
  fetch_uri :: "string \<Rightarrow> jserror + string"
  response_blob :: "string \<Rightarrow> jserror + string"
  readAsText :: "string \<Rightarrow> string option"
  digestStringAsync :: "string \<Rightarrow> jserror + string"

definition VIRUSTOTAL_API_KEY :: string where
  "VIRUSTOTAL_API_KEY = ''eb9cd3d7cf4ecf107ca521f4081a2f5429955148b989c0fa09121a0635581cbc''"

text \<open>The template literal \<open>`https://www.virustotal.com/api/v3/files/${hash}`\<close>\<close>

definition report_url :: "string \<Rightarrow> string" where
  "report_url hash = ''https://www.virustotal.com/api/v3/files/'' @ hash"

text \<open>\<open>a || b\<close> on a string that may be absent: the empty string is falsy too.\<close>

definition or_else :: "string option \<Rightarrow> string \<Rightarrow> string" where
  "or_else a b = (case a of None \<Rightarrow> b | Some v \<Rightarrow> if v = [] then b else v)"

text \<open>
  \<open>(err as any).response?.data?.error?.message || (err as Error).message\<close>
\<close>

definition error_text :: "jserror \<Rightarrow> string" where
  "error_text err = or_else (response_message err) (message err)"

text \<open>
  The \<open>TypeError\<close> thrown when the per-engine object is absent. The wording of the
  message is the engine's.
\<close>

definition entries_TypeError :: jserror where
  "entries_TypeError =
     \<lparr>response_message = None, message = ''Cannot convert undefined or null to object''\<rparr>"

text \<open>
  The arrow function that both lookups map over \<open>Object.entries(analysisResults)\<close>:
  \<open>([vendor, data]) => ({vendor, result: data.result || 'Clean', category: data.category})\<close>
\<close>

definition vendorEntry :: "string \<times> engine_data \<Rightarrow> VendorResult" where
  "vendorEntry e =
     \<lparr>vendor = fst e,
      result = or_else (engine_result (snd e)) ''Clean'',
      category = engine_category (snd e)\<rparr>"

section \<open>File screen: \<open>pickDocument\<close>, \<open>generateHash\<close>, \<open>checkVirusTotal\<close>\<close>

record FileResult =
  file_name :: string
  file_size :: number
  file_uri :: string

text \<open>The \<open>useState\<close> cells of \<open>FileScannerScreen\<close>.\<close>

record file_screen =
  file' :: "FileResult option"
  results :: "ScanResult option"
  loading :: bool
  error :: string

text \<open>
  \<open>checkVirusTotal\<close>. Every path out of the \<open>try\<close> runs \<open>finally\<close>, which sets
  \<open>loading\<close> to false; \<open>catch\<close> sets the error message. The cache test
  \<open>if (cachedResult)\<close> is false for an absent entry and for the empty string.
\<close>

definition checkVirusTotal_catch :: "jserror \<Rightarrow> file_screen \<Rightarrow> file_screen" where
  "checkVirusTotal_catch err ui =
     ui\<lparr>error := ''VirusTotal Error: '' @ error_text err, loading := False\<rparr>"

definition checkVirusTotal :: "deps \<Rightarrow> string \<Rightarrow> world \<times> file_screen \<Rightarrow> world \<times> file_screen" where
  "checkVirusTotal d hash st =
     (let w = fst st; ui = snd st;
          w1 = w\<lparr>trace := trace w @ [GetItem hash]\<rparr>
      in case getItem_rejects d hash of
           Some err \<Rightarrow> (w1, checkVirusTotal_catch err ui)
         | None \<Rightarrow>
             (let cachedResult = or_else (storage w1 hash) [] in
              if cachedResult \<noteq> [] then
                (case JSON_parse d cachedResult of
                   Inl err \<Rightarrow> (w1, checkVirusTotal_catch err ui)
                 | Inr parsed \<Rightarrow> (w1, ui\<lparr>results := Some parsed, loading := False\<rparr>))
              else
                (let w2 = w1\<lparr>trace := trace w1 @ [HttpGet (report_url hash) VIRUSTOTAL_API_KEY]\<rparr>
                 in case axios_get d (report_url hash) of
                      Inl err \<Rightarrow> (w2, checkVirusTotal_catch err ui)
                    | Inr response \<Rightarrow>
                        (case last_analysis_results response of
                           None \<Rightarrow> (w2, checkVirusTotal_catch entries_TypeError ui)
                         | Some analysisResults \<Rightarrow>
                             (let resultData =
                                    \<lparr>stats = last_analysis_stats response,
                                     vendors = map vendorEntry analysisResults\<rparr>;
                                  text = JSON_stringify d resultData;
                                  w3 = w2\<lparr>trace := trace w2 @ [SetItem hash text]\<rparr>
                              in case setItem_rejects d hash text of
                                   Some err \<Rightarrow> (w3, checkVirusTotal_catch err ui)
                                 | None \<Rightarrow>
                                     (w3\<lparr>storage := (storage w3)(hash \<mapsto> text)\<rparr>,
                                      ui\<lparr>results := Some resultData, loading := False\<rparr>))))))"

text \<open>
  \<open>generateHash\<close>. The \<open>try\<close> covers \<open>fetch\<close>, \<open>blob\<close> and the start of the read. The
  \<open>onload\<close> callback runs later, outside it: when the digest rejects there, nothing
  catches the rejection and no state is set; when the read itself fails, \<open>onload\<close> never
  runs.
\<close>

definition generateHash :: "deps \<Rightarrow> string \<Rightarrow> world \<times> file_screen \<Rightarrow> world \<times> file_screen" where
  "generateHash d fileUri st =
     (let w = fst st; ui = (snd st)\<lparr>loading := True\<rparr>;
          w1 = w\<lparr>trace := trace w @ [FetchUri fileUri]\<rparr>;
          catch = (\<lambda>err. (w1, ui\<lparr>error := ''Error generating hash: '' @ message err,
                                  loading := False\<rparr>))
      in case fetch_uri d fileUri of
           Inl err \<Rightarrow> catch err
         | Inr response \<Rightarrow>
             (case response_blob d response of
                Inl err \<Rightarrow> catch err
              | Inr fileData \<Rightarrow>
                  (case readAsText d fileData of
                     None \<Rightarrow> (w1, ui)
                   | Some text \<Rightarrow>
                       (case digestStringAsync d text of
                          Inl err \<Rightarrow> (w1, ui)
                        | Inr hash \<Rightarrow> checkVirusTotal d hash (w1, ui)))))"

text \<open>
  \<open>pickDocument\<close>. \<open>result.assets && result.assets[0]\<close> is falsy when the picker was
  cancelled (no \<open>assets\<close>) or the list is empty; \<open>selectedFile.size || 0\<close> is \<open>0\<close> for an
  absent, zero or \<open>NaN\<close> size.
\<close>

definition size_or_zero :: "number option \<Rightarrow> number" where
  "size_or_zero n =
     (case n of None \<Rightarrow> Finite 0 | Some v \<Rightarrow> if v = NaN \<or> v = Finite 0 then Finite 0 else v)"

definition pickDocument :: "deps \<Rightarrow> world \<times> file_screen \<Rightarrow> world \<times> file_screen" where
  "pickDocument d st =
     (let w = fst st; ui = snd st
      in case getDocumentAsync d of
           Inl err \<Rightarrow> (w, ui\<lparr>error := ''Error picking file: '' @ message err\<rparr>)
         | Inr assets \<Rightarrow>
             (case assets of
                None \<Rightarrow> (w, ui)
              | Some [] \<Rightarrow> (w, ui)
              | Some (selectedFile # others) \<Rightarrow>
                  generateHash d (asset_uri selectedFile)
                    (w, ui\<lparr>file' := Some \<lparr>file_name = asset_name selectedFile,
                                          file_size = size_or_zero (asset_size selectedFile),
                                          file_uri = asset_uri selectedFile\<rparr>,
                           error := []\<rparr>)))"

section \<open>Hash screen: \<open>checkHash\<close>\<close>

text \<open>
  \<open>shaInput.match(/^[a-fA-F0-9]{64}$/)\<close>: exactly 64 characters, each a hexadecimal
  digit of either case.
\<close>

definition is_hex_digit :: "char \<Rightarrow> bool" where
  "is_hex_digit c = (c \<in> set ''abcdefABCDEF0123456789'')"

definition matches_sha256 :: "string \<Rightarrow> bool" where
  "matches_sha256 s = (length s = 64 \<and> list_all is_hex_digit s)"

text \<open>
  The \<open>useState\<close> cells of \<open>HomeScreen\<close>; \<open>progressAnim\<close> is the value that the last
  \<open>animateProgress\<close> call animates towards.
\<close>

record hash_screen =
  shaInput :: string
  shaResults :: "ScanResult option"
  shaLoading :: bool
  shaError :: string
  progressAnim :: number

definition checkHash_catch :: "jserror \<Rightarrow> hash_screen \<Rightarrow> hash_screen" where
  "checkHash_catch err ui =
     ui\<lparr>shaError := ''VirusTotal Error: '' @ error_text err,
        progressAnim := Finite 0, shaLoading := False\<rparr>"

definition checkHash :: "deps \<Rightarrow> world \<times> hash_screen \<Rightarrow> world \<times> hash_screen" where
  "checkHash d st =
     (let w = fst st; ui0 = snd st in
      if \<not> matches_sha256 (shaInput ui0) then
        (w, ui0\<lparr>shaError := ''Invalid SHA256 format'', progressAnim := Finite 0\<rparr>)
      else
        (let ui = ui0\<lparr>shaLoading := True, shaError := [], progressAnim := Finite (3 / 10)\<rparr>;
             w1 = w\<lparr>trace := trace w @ [GetItem (shaInput ui)]\<rparr>
         in case getItem_rejects d (shaInput ui) of
              Some err \<Rightarrow> (w1, checkHash_catch err ui)
            | None \<Rightarrow>
                (let cachedResult = or_else (storage w1 (shaInput ui)) [] in
                 if cachedResult \<noteq> [] then
                   (case JSON_parse d cachedResult of
                      Inl err \<Rightarrow> (w1, checkHash_catch err ui)
                    | Inr parsed \<Rightarrow>
                        (w1, ui\<lparr>shaResults := Some parsed, progressAnim := Finite 1,
                                shaLoading := False\<rparr>))
                 else
                   (let w2 = w1\<lparr>trace := trace w1 @
                                 [HttpGet (report_url (shaInput ui)) VIRUSTOTAL_API_KEY]\<rparr>
                    in case axios_get d (report_url (shaInput ui)) of
                         Inl err \<Rightarrow> (w2, checkHash_catch err ui)
                       | Inr response \<Rightarrow>
                           (case last_analysis_results response of
                              None \<Rightarrow> (w2, checkHash_catch entries_TypeError ui)
                            | Some analysisResults \<Rightarrow>
                                (let resultData =
                                       \<lparr>stats = last_analysis_stats response,
                                        vendors = map vendorEntry analysisResults\<rparr>;
                                     text = JSON_stringify d resultData;
                                     w3 = w2\<lparr>trace := trace w2 @ [SetItem (shaInput ui) text]\<rparr>
                                 in case setItem_rejects d (shaInput ui) text of
                                      Some err \<Rightarrow> (w3, checkHash_catch err ui)
                                    | None \<Rightarrow>
                                        (w3\<lparr>storage := (storage w3)(shaInput ui \<mapsto> text)\<rparr>,
                                         ui\<lparr>shaResults := Some resultData,
                                            progressAnim := Finite 1,
                                            shaLoading := False\<rparr>)))))))"

section \<open>The two screens in one application\<close>

text \<open>
  Both screens use the one \<open>AsyncStorage\<close> of the application. The user's actions are
  the handlers wired in the two render functions: \<open>onPress={pickDocument}\<close> (disabled
  while \<open>loading\<close>), \<open>onChangeText={setShaInput}\<close> and \<open>onPress={checkHash}\<close> (disabled
  while \<open>shaLoading\<close>). Each action comes with the answers the collaborators give
  during it.
\<close>

record app =
  app_world :: world
  file_ui :: file_screen
  hash_ui :: hash_screen

datatype action = PickFile | EnterHash string | PressCheck

fun step :: "deps \<Rightarrow> action \<Rightarrow> app \<Rightarrow> app" where
  "step d PickFile a =
     (if loading (file_ui a) then a
      else (let st = pickDocument d (app_world a, file_ui a)
            in a\<lparr>app_world := fst st, file_ui := snd st\<rparr>))"
| "step d (EnterHash s) a = a\<lparr>hash_ui := (hash_ui a)\<lparr>shaInput := s\<rparr>\<rparr>"
| "step d PressCheck a =
     (if shaLoading (hash_ui a) then a
      else (let st = checkHash d (app_world a, hash_ui a)
            in a\<lparr>app_world := fst st, hash_ui := snd st\<rparr>))"

fun run :: "(deps \<times> action) list \<Rightarrow> app \<Rightarrow> app" where
  "run [] a = a"
| "run (da # rest) a = run rest (step (fst da) (snd da) a)"

section \<open>Observing a run\<close>

text \<open>The external calls made between two worlds, and the report requests among them.\<close>

definition new_effects :: "world \<Rightarrow> world \<Rightarrow> effect list" where
  "new_effects w w' = drop (length (trace w)) (trace w')"

fun is_http :: "effect \<Rightarrow> bool" where
  "is_http (HttpGet url key) = True"
| "is_http e = False"

definition http_calls :: "effect list \<Rightarrow> effect list" where
  "http_calls es = filter is_http es"


text \<open>
  The twelve o'clock and nine o'clock points of the circle of radius \<open>r\<close> about
  \<open>(cx, cy)\<close>, in the SVG frame (y grows downwards).
\<close>

definition twelve_oclock :: "real \<Rightarrow> real \<Rightarrow> real \<Rightarrow> number \<times> number" where
  "twelve_oclock cx cy r = (Finite cx, Finite (cy - r))"

definition nine_oclock :: "real \<Rightarrow> real \<Rightarrow> real \<Rightarrow> number \<times> number" where
  "nine_oclock cx cy r = (Finite (cx - r), Finite cy)"

text \<open>The angular span that a slice of value \<open>v\<close> has in a chart of total \<open>T\<close>.\<close>

definition span_of :: "real \<Rightarrow> real \<Rightarrow> real" where
  "span_of T v = 360 * v / T"

section \<open>Sample inputs\<close>

text \<open>
  The scenario of the specification: counts 3, 1, 40 and 10, and two engines, one of
  which reports no result.
\<close>

definition sample_report :: report where
  "sample_report =
     \<lparr>last_analysis_results = Some
        [(''EngineA'', \<lparr>engine_result = Some ''Trojan.Generic'', engine_category = ''malicious''\<rparr>),
         (''EngineB'', \<lparr>engine_result = None, engine_category = ''undetected''\<rparr>)],
      last_analysis_stats =
        \<lparr>malicious = Finite 3, suspicious = Finite 1, undetected = Finite 40,
         harmless = Finite 10\<rparr>\<rparr>"

definition sample_result :: ScanResult where
  "sample_result =
     \<lparr>stats = \<lparr>malicious = Finite 3, suspicious = Finite 1, undetected = Finite 40,
                harmless = Finite 10\<rparr>,
      vendors =
        [\<lparr>vendor = ''EngineA'', result = ''Trojan.Generic'', category = ''malicious''\<rparr>,
         \<lparr>vendor = ''EngineB'', result = ''Clean'', category = ''undetected''\<rparr>]\<rparr>"

definition counts :: "real \<Rightarrow> real \<Rightarrow> ScanResult" where
  "counts m s =
     \<lparr>stats = \<lparr>malicious = Finite m, suspicious = Finite s, undetected = Finite 40,
                harmless = Finite 10\<rparr>,
      vendors = []\<rparr>"

definition zero_result :: ScanResult where
  "zero_result =
     \<lparr>stats = \<lparr>malicious = Finite 0, suspicious = Finite 0, undetected = Finite 0,
                harmless = Finite 0\<rparr>,
      vendors = []\<rparr>"

definition sample_text :: string where
  "sample_text = ''{stats,vendors}''"

definition network_error :: jserror where
  "network_error = \<lparr>response_message = None, message = ''Network Error''\<rparr>"

definition syntax_error :: jserror where
  "syntax_error = \<lparr>response_message = None, message = ''JSON Parse error''\<rparr>"

definition digest_error :: jserror where
  "digest_error = \<lparr>response_message = None, message = ''digest failed''\<rparr>"

definition fp_lower :: string where
  "fp_lower = replicate 64 CHR ''a''"

definition fp_upper :: string where
  "fp_upper = replicate 64 CHR ''A''"

definition sample_asset :: asset where
  "sample_asset = \<lparr>asset_name = ''a.bin'', asset_size = Some (Finite 12), asset_uri = ''file:///a.bin''\<rparr>"

text \<open>
  Collaborators that all succeed: the service answers \<open>sample_report\<close>, the picked file
  hashes to \<open>fp_lower\<close>, and the sample result and its text round-trip.
\<close>

definition sample_deps :: deps where
  "sample_deps =
     \<lparr>axios_get = (\<lambda>url. Inr sample_report),
      JSON_stringify = (\<lambda>r. sample_text),
      JSON_parse = (\<lambda>t. if t = sample_text then Inr sample_result else Inl syntax_error),
      getItem_rejects = (\<lambda>k. None),
      setItem_rejects = (\<lambda>k v. None),
      getDocumentAsync = Inr (Some [sample_asset]),
      fetch_uri = (\<lambda>u. Inr ''response''),
      response_blob = (\<lambda>r. Inr ''blob''),
      readAsText = (\<lambda>b. Some ''contents''),
      digestStringAsync = (\<lambda>t. Inr fp_lower)\<rparr>"

text \<open>
  The same with the network down, with a failing digest, and with a failing read of the
  file.
\<close>

definition offline_deps :: deps where
  "offline_deps = sample_deps\<lparr>axios_get := (\<lambda>url. Inl network_error)\<rparr>"

definition failing_digest_deps :: deps where
  "failing_digest_deps = sample_deps\<lparr>digestStringAsync := (\<lambda>t. Inl digest_error)\<rparr>"

definition failing_read_deps :: deps where
  "failing_read_deps = sample_deps\<lparr>readAsText := (\<lambda>b. None)\<rparr>"

definition world0 :: world where
  "world0 = \<lparr>storage = Map.empty, trace = []\<rparr>"

definition file_screen0 :: file_screen where
  "file_screen0 = \<lparr>file' = None, results = None, loading = False, error = []\<rparr>"

definition hash_screen0 :: hash_screen where
  "hash_screen0 =
     \<lparr>shaInput = [], shaResults = None, shaLoading = False, shaError = [],
      progressAnim = Finite 0\<rparr>"

text \<open>
  The application with the sample result already cached under \<open>fp_lower\<close>, and a later
  session: the upper-case spelling is typed and checked, then a file is picked.
\<close>

definition cached_app :: app where
  "cached_app =
     \<lparr>app_world = world0\<lparr>storage := [fp_lower \<mapsto> sample_text]\<rparr>,
      file_ui = file_screen0, hash_ui = hash_screen0\<rparr>"

definition later_actions :: "(deps \<times> action) list" where
  "later_actions =
     [(sample_deps, EnterHash fp_upper), (sample_deps, PressCheck), (offline_deps, PickFile)]"

section \<open>Properties of the severity classifier\<close>

lemma getSeverityLevel_finite:
  "getSeverityLevel (Some \<lparr>stats = \<lparr>malicious = Finite m, suspicious = Finite s,
       undetected = u, harmless = h\<rparr>, vendors = vs\<rparr>) =
     (if m + s = 0 then ''Clean''
      else if m + s \<le> 2 then ''Low Risk''
      else if m + s \<le> 5 then ''Moderate Risk''
      else if m + s \<le> 10 then ''High Risk''
      else ''Critical Risk'')"
  by (simp add: getSeverityLevel_def js_strict_eq_def)

text \<open>
  Claim C1. The severity level is a function of the result alone. With no result it is
  \<open>Unknown\<close>. With a result whose malicious and suspicious counts are the non-negative
  integers \<open>m\<close> and \<open>s\<close>, it is \<open>Clean\<close> when \<open>m + s = 0\<close>, \<open>Low Risk\<close> when
  \<open>1 \<le> m + s \<le> 2\<close>, \<open>Moderate Risk\<close> when \<open>3 \<le> m + s \<le> 5\<close>, \<open>High Risk\<close> when
  \<open>6 \<le> m + s \<le> 10\<close> and \<open>Critical Risk\<close> when \<open>m + s > 10\<close>. Being a function of its
  argument into strings, it is deterministic and changes no state.
\<close>

theorem severity_thresholds:
  fixes m s :: nat
  assumes "malicious (stats r) = Finite (real m)"
      and "suspicious (stats r) = Finite (real s)"
  shows "getSeverityLevel None = ''Unknown'' \<and>
    (m + s = 0 \<longrightarrow> getSeverityLevel (Some r) = ''Clean'') \<and>
    (1 \<le> m + s \<and> m + s \<le> 2 \<longrightarrow> getSeverityLevel (Some r) = ''Low Risk'') \<and>
    (3 \<le> m + s \<and> m + s \<le> 5 \<longrightarrow> getSeverityLevel (Some r) = ''Moderate Risk'') \<and>
    (6 \<le> m + s \<and> m + s \<le> 10 \<longrightarrow> getSeverityLevel (Some r) = ''High Risk'') \<and>
    (10 < m + s \<longrightarrow> getSeverityLevel (Some r) = ''Critical Risk'')"
proof -
  have t: "js_add (malicious (stats r)) (suspicious (stats r)) = Finite (real (m + s))"
    using assms by simp
  have e: "\<And>k. (real (m + s) \<le> numeral k) = (m + s \<le> numeral k)"
    by (metis of_nat_le_iff of_nat_numeral)
  have z: "(real (m + s) = 0) = (m + s = 0)"
    by (simp del: of_nat_add)
  show ?thesis
    by (simp add: getSeverityLevel_def Let_def t js_strict_eq_def e z del: of_nat_add)
qed

text \<open>The thresholds at the boundary totals 0, 1, 2, 3, 5, 6, 10 and 11.\<close>

theorem severity_thresholds_witness:
  "getSeverityLevel None = ''Unknown'' \<and>
   getSeverityLevel (Some (counts 0 0)) = ''Clean'' \<and>
   getSeverityLevel (Some (counts 1 0)) = ''Low Risk'' \<and>
   getSeverityLevel (Some (counts 1 1)) = ''Low Risk'' \<and>
   getSeverityLevel (Some (counts 3 0)) = ''Moderate Risk'' \<and>
   getSeverityLevel (Some (counts 3 2)) = ''Moderate Risk'' \<and>
   getSeverityLevel (Some (counts 3 3)) = ''High Risk'' \<and>
   getSeverityLevel (Some (counts 6 4)) = ''High Risk'' \<and>
   getSeverityLevel (Some (counts 6 5)) = ''Critical Risk''"
  using severity_thresholds [of "counts 0 0" 0 0] severity_thresholds [of "counts 1 0" 1 0]
    severity_thresholds [of "counts 1 1" 1 1] severity_thresholds [of "counts 3 0" 3 0]
    severity_thresholds [of "counts 3 2" 3 2] severity_thresholds [of "counts 3 3" 3 3]
    severity_thresholds [of "counts 6 4" 6 4] severity_thresholds [of "counts 6 5" 6 5]
  by (simp add: counts_def)

section \<open>Effects and storage of one lookup\<close>

lemma new_effects_append [simp]: "new_effects w (w'\<lparr>trace := trace w @ es\<rparr>) = es"
  by (simp add: new_effects_def)

lemma checkVirusTotal_effects:
  "\<exists>rest. trace (fst (checkVirusTotal d h (w, ui))) = trace w @ GetItem h # rest \<and>
     (rest = [] \<or> rest = [HttpGet (report_url h) VIRUSTOTAL_API_KEY] \<or>
      (\<exists>t. rest = [HttpGet (report_url h) VIRUSTOTAL_API_KEY, SetItem h t]))"
  by (auto simp: checkVirusTotal_def Let_def split: option.splits sum.splits)

lemma checkHash_effects:
  "matches_sha256 (shaInput ui) \<Longrightarrow>
   \<exists>rest. trace (fst (checkHash d (w, ui))) = trace w @ GetItem (shaInput ui) # rest \<and>
     (rest = [] \<or> rest = [HttpGet (report_url (shaInput ui)) VIRUSTOTAL_API_KEY] \<or>
      (\<exists>t. rest = [HttpGet (report_url (shaInput ui)) VIRUSTOTAL_API_KEY,
                    SetItem (shaInput ui) t]))"
  by (auto simp: checkHash_def Let_def split: option.splits sum.splits)

lemma checkVirusTotal_new_effects:
  "\<exists>rest. new_effects w (fst (checkVirusTotal d h (w, ui))) = GetItem h # rest \<and>
     length (http_calls rest) \<le> 1"
  using checkVirusTotal_effects [of d h w ui]
  by (auto simp: new_effects_def http_calls_def)

lemma checkHash_new_effects:
  "matches_sha256 (shaInput ui) \<Longrightarrow>
   \<exists>rest. new_effects w (fst (checkHash d (w, ui))) = GetItem (shaInput ui) # rest \<and>
     length (http_calls rest) \<le> 1"
  using checkHash_effects [of ui d w]
  by (auto simp: new_effects_def http_calls_def)

lemma checkVirusTotal_hit:
  assumes "getItem_rejects d h = None" "storage w h = Some c" "c \<noteq> []"
  shows "checkVirusTotal d h (w, ui) =
     (w\<lparr>trace := trace w @ [GetItem h]\<rparr>,
      case JSON_parse d c of
        Inl err \<Rightarrow> checkVirusTotal_catch err ui
      | Inr parsed \<Rightarrow> ui\<lparr>results := Some parsed, loading := False\<rparr>)"
  using assms
  by (auto simp: checkVirusTotal_def Let_def or_else_def split: option.splits sum.splits)

lemma checkHash_hit:
  assumes "matches_sha256 (shaInput ui)"
    "getItem_rejects d (shaInput ui) = None" "storage w (shaInput ui) = Some c" "c \<noteq> []"
  shows "checkHash d (w, ui) =
     (w\<lparr>trace := trace w @ [GetItem (shaInput ui)]\<rparr>,
      case JSON_parse d c of
        Inl err \<Rightarrow> checkHash_catch err
                     (ui\<lparr>shaLoading := True, shaError := [], progressAnim := Finite (3 / 10)\<rparr>)
      | Inr parsed \<Rightarrow> ui\<lparr>shaResults := Some parsed, shaLoading := False, shaError := [],
                          progressAnim := Finite 1\<rparr>)"
  using assms
  by (auto simp: checkHash_def Let_def or_else_def split: option.splits sum.splits)

lemma checkVirusTotal_fetched:
  assumes "getItem_rejects d h = None" "or_else (storage w h) [] = []"
    "axios_get d (report_url h) = Inr response"
    "last_analysis_results response = Some analysisResults"
    "resultData = \<lparr>stats = last_analysis_stats response,
                   vendors = map vendorEntry analysisResults\<rparr>"
    "setItem_rejects d h (JSON_stringify d resultData) = None"
  shows "checkVirusTotal d h (w, ui) =
     (w\<lparr>trace := trace w @ [GetItem h, HttpGet (report_url h) VIRUSTOTAL_API_KEY,
                              SetItem h (JSON_stringify d resultData)],
        storage := (storage w)(h \<mapsto> JSON_stringify d resultData)\<rparr>,
      ui\<lparr>results := Some resultData, loading := False\<rparr>)"
  using assms
  by (simp add: checkVirusTotal_def Let_def)

lemma checkHash_fetched:
  assumes "matches_sha256 (shaInput ui)"
    "getItem_rejects d (shaInput ui) = None" "or_else (storage w (shaInput ui)) [] = []"
    "axios_get d (report_url (shaInput ui)) = Inr response"
    "last_analysis_results response = Some analysisResults"
    "resultData = \<lparr>stats = last_analysis_stats response,
                   vendors = map vendorEntry analysisResults\<rparr>"
    "setItem_rejects d (shaInput ui) (JSON_stringify d resultData) = None"
  shows "checkHash d (w, ui) =
     (w\<lparr>trace := trace w @ [GetItem (shaInput ui),
                              HttpGet (report_url (shaInput ui)) VIRUSTOTAL_API_KEY,
                              SetItem (shaInput ui) (JSON_stringify d resultData)],
        storage := (storage w)(shaInput ui \<mapsto> JSON_stringify d resultData)\<rparr>,
      ui\<lparr>shaResults := Some resultData, shaLoading := False, shaError := [],
         progressAnim := Finite 1\<rparr>)"
  using assms
  by (simp add: checkHash_def Let_def)

lemma checkVirusTotal_storage:
  "storage (fst (checkVirusTotal d h (w, ui))) = storage w \<or>
   (\<exists>response analysisResults.
      or_else (storage w h) [] = [] \<and>
      axios_get d (report_url h) = Inr response \<and>
      last_analysis_results response = Some analysisResults \<and>
      storage (fst (checkVirusTotal d h (w, ui))) =
        (storage w)(h \<mapsto> JSON_stringify d
           \<lparr>stats = last_analysis_stats response, vendors = map vendorEntry analysisResults\<rparr>) \<and>
      results (snd (checkVirusTotal d h (w, ui))) =
        Some \<lparr>stats = last_analysis_stats response, vendors = map vendorEntry analysisResults\<rparr>)"
  by (auto simp: checkVirusTotal_def Let_def split: option.splits sum.splits)

lemma checkHash_storage:
  "storage (fst (checkHash d (w, ui))) = storage w \<or>
   (\<exists>response analysisResults.
      matches_sha256 (shaInput ui) \<and>
      or_else (storage w (shaInput ui)) [] = [] \<and>
      axios_get d (report_url (shaInput ui)) = Inr response \<and>
      last_analysis_results response = Some analysisResults \<and>
      storage (fst (checkHash d (w, ui))) =
        (storage w)(shaInput ui \<mapsto> JSON_stringify d
           \<lparr>stats = last_analysis_stats response, vendors = map vendorEntry analysisResults\<rparr>) \<and>
      shaResults (snd (checkHash d (w, ui))) =
        Some \<lparr>stats = last_analysis_stats response, vendors = map vendorEntry analysisResults\<rparr>)"
  by (auto simp: checkHash_def Let_def split: option.splits sum.splits)

lemma checkVirusTotal_keeps_entry:
  assumes "storage w k = Some c" "c \<noteq> []"
  shows "storage (fst (checkVirusTotal d h (w, ui))) k = Some c"
  using checkVirusTotal_storage [of d h w ui] assms
  by (auto simp: or_else_def split: if_splits)

lemma checkHash_keeps_entry:
  assumes "storage w k = Some c" "c \<noteq> []"
  shows "storage (fst (checkHash d (w, ui))) k = Some c"
  using checkHash_storage [of d w ui] assms
  by (auto simp: or_else_def split: if_splits)

lemma generateHash_keeps_entry:
  assumes "storage w k = Some c" "c \<noteq> []"
  shows "storage (fst (generateHash d uri (w, ui))) k = Some c"
  using assms
  by (auto simp: generateHash_def Let_def checkVirusTotal_keeps_entry
      split: option.splits sum.splits)

lemma pickDocument_keeps_entry:
  assumes "storage w k = Some c" "c \<noteq> []"
  shows "storage (fst (pickDocument d (w, ui))) k = Some c"
  using assms
  by (auto simp: pickDocument_def Let_def generateHash_keeps_entry
      split: option.splits sum.splits list.splits)

lemma step_keeps_entry:
  assumes "storage (app_world a) k = Some c" "c \<noteq> []"
  shows "storage (app_world (step d act a)) k = Some c"
  using assms
  by (cases act)
     (auto simp: Let_def pickDocument_keeps_entry checkHash_keeps_entry
        simp del: surjective_pairing)

lemma run_keeps_entry:
  assumes "storage (app_world a) k = Some c" "c \<noteq> []"
  shows "storage (app_world (run das a)) k = Some c"
  using assms
proof (induction das arbitrary: a)
  case Nil
  then show ?case by simp
next
  case (Cons da das)
  then show ?case by (simp add: step_keeps_entry)
qed

lemma checkHash_shaInput [simp]: "shaInput (snd (checkHash d (w, ui))) = shaInput ui"
  by (auto simp: checkHash_def checkHash_catch_def Let_def split: option.splits sum.splits)

lemma checkVirusTotal_twice:
  assumes "getItem_rejects d2 h = None"
    and "storage (fst (checkVirusTotal d h (w, ui))) h = Some c" and "c \<noteq> []"
  shows "\<exists>rest. new_effects w (fst (checkVirusTotal d2 h (checkVirusTotal d h (w, ui)))) =
           GetItem h # rest @ [GetItem h] \<and> length (http_calls rest) \<le> 1"
proof -
  obtain w1 ui1 where st1: "checkVirusTotal d h (w, ui) = (w1, ui1)"
    by (cases "checkVirusTotal d h (w, ui)")
  obtain rest where r: "trace w1 = trace w @ GetItem h # rest" "length (http_calls rest) \<le> 1"
    using checkVirusTotal_effects [of d h w ui] st1 by (auto simp: http_calls_def)
  have "storage w1 h = Some c" using assms(2) st1 by simp
  then have "fst (checkVirusTotal d2 h (w1, ui1)) = w1\<lparr>trace := trace w1 @ [GetItem h]\<rparr>"
    using checkVirusTotal_hit [OF assms(1) _ assms(3), of w1 ui1] by simp
  then show ?thesis using r st1 by (simp add: new_effects_def)
qed

lemma checkHash_twice:
  assumes "matches_sha256 (shaInput ui)" and "getItem_rejects d2 (shaInput ui) = None"
    and "storage (fst (checkHash d (w, ui))) (shaInput ui) = Some c" and "c \<noteq> []"
  shows "\<exists>rest. new_effects w (fst (checkHash d2 (checkHash d (w, ui)))) =
           GetItem (shaInput ui) # rest @ [GetItem (shaInput ui)] \<and>
           length (http_calls rest) \<le> 1"
proof -
  obtain w1 ui1 where st1: "checkHash d (w, ui) = (w1, ui1)"
    by (cases "checkHash d (w, ui)")
  have in1: "shaInput ui1 = shaInput ui"
    using checkHash_shaInput [of d w ui] st1 by simp
  obtain rest where r: "trace w1 = trace w @ GetItem (shaInput ui) # rest"
      "length (http_calls rest) \<le> 1"
    using checkHash_effects [OF assms(1), of d w] st1 by (auto simp: http_calls_def)
  have "storage w1 (shaInput ui1) = Some c" using assms(3) st1 in1 by simp
  then have "fst (checkHash d2 (w1, ui1)) = w1\<lparr>trace := trace w1 @ [GetItem (shaInput ui1)]\<rparr>"
    using checkHash_hit [of ui1 d2 w1 c] assms in1 by simp
  then show ?thesis using r st1 in1 by (simp add: new_effects_def)
qed

lemma checkVirusTotal_second_same:
  assumes wrote: "storage (fst (checkVirusTotal d h (w, ui))) \<noteq> storage w"
    and get: "getItem_rejects d2 h = None"
    and shown: "results (snd (checkVirusTotal d h (w, ui))) = Some x"
    and rt: "JSON_stringify d x \<noteq> []" "JSON_parse d2 (JSON_stringify d x) = Inr x"
  shows "results (snd (checkVirusTotal d2 h (checkVirusTotal d h (w, ui)))) = Some x \<and>
         new_effects (fst (checkVirusTotal d h (w, ui)))
           (fst (checkVirusTotal d2 h (checkVirusTotal d h (w, ui)))) = [GetItem h]"
proof -
  obtain w1 ui1 where st1: "checkVirusTotal d h (w, ui) = (w1, ui1)"
    by (cases "checkVirusTotal d h (w, ui)")
  obtain rd where rd: "storage w1 h = Some (JSON_stringify d rd)" "results ui1 = Some rd"
    using checkVirusTotal_storage [of d h w ui] wrote st1 by auto
  have x: "rd = x" using shown rd(2) st1 by simp
  have ne: "JSON_stringify d rd \<noteq> []" and p: "JSON_parse d2 (JSON_stringify d rd) = Inr rd"
    using rt x by simp_all
  show ?thesis
    using checkVirusTotal_hit [OF get rd(1) ne, of ui1] p x st1
    by (simp add: new_effects_def)
qed

lemma checkHash_second_same:
  assumes wrote: "storage (fst (checkHash d (w, ui))) \<noteq> storage w"
    and get: "getItem_rejects d2 (shaInput ui) = None"
    and shown: "shaResults (snd (checkHash d (w, ui))) = Some x"
    and rt: "JSON_stringify d x \<noteq> []" "JSON_parse d2 (JSON_stringify d x) = Inr x"
  shows "shaResults (snd (checkHash d2 (checkHash d (w, ui)))) = Some x \<and>
         new_effects (fst (checkHash d (w, ui)))
           (fst (checkHash d2 (checkHash d (w, ui)))) = [GetItem (shaInput ui)]"
proof -
  obtain w1 ui1 where st1: "checkHash d (w, ui) = (w1, ui1)"
    by (cases "checkHash d (w, ui)")
  have in1: "shaInput ui1 = shaInput ui"
    using checkHash_shaInput [of d w ui] st1 by simp
  obtain rd where rd: "storage w1 (shaInput ui) = Some (JSON_stringify d rd)"
      "shaResults ui1 = Some rd" and m: "matches_sha256 (shaInput ui)"
    using checkHash_storage [of d w ui] wrote st1 by auto
  have x: "rd = x" using shown rd(2) st1 by simp
  have ne: "JSON_stringify d rd \<noteq> []" and p: "JSON_parse d2 (JSON_stringify d rd) = Inr rd"
    using rt x by simp_all
  show ?thesis
    using checkHash_hit [of ui1 d2 w1 "JSON_stringify d rd"] get rd m ne p st1 in1 x
    by (simp add: new_effects_def)
qed

section \<open>Facts about the sample inputs\<close>

lemma matches_fp_lower: "matches_sha256 fp_lower"
  by (simp add: matches_sha256_def fp_lower_def is_hex_digit_def list_all_iff)

lemma matches_fp_upper: "matches_sha256 fp_upper"
  by (simp add: matches_sha256_def fp_upper_def is_hex_digit_def list_all_iff)


lemma fp_lower_neq_upper: "fp_lower \<noteq> fp_upper"
  by (simp add: fp_lower_def fp_upper_def)

lemma sample_result_eq:
  "\<lparr>stats = last_analysis_stats sample_report,
    vendors = map vendorEntry (the (last_analysis_results sample_report))\<rparr> = sample_result"
  by (simp add: sample_report_def sample_result_def vendorEntry_def or_else_def)

section \<open>Only well-formed fingerprints are looked up\<close>










text \<open>
  Claim C3. In both flows a lookup begins with the cache read for the fingerprint, so a
  report request can only come after it. When the cache holds a non-empty entry for the
  fingerprint (what an earlier lookup stored) and the read succeeds, the lookup makes no
  further external call and shows what the stored text parses to. Two lookups of one
  fingerprint of which the second finds the entry make at most one report request in
  total, and when the first one wrote the entry and JSON text round-trips, the second
  shows the same result as the first.
\<close>

theorem cache_hit_skips_network:
  fixes d d2 :: deps and h :: string and w :: world and ui :: file_screen
    and hui :: hash_screen
  defines "file1 \<equiv> checkVirusTotal d h (w, ui)"
      and "hash1 \<equiv> checkHash d (w, hui)"
  shows
    "(\<exists>rest. new_effects w (fst file1) = GetItem h # rest) \<and>
     (getItem_rejects d h = None \<and> storage w h = Some c \<and> c \<noteq> [] \<and> JSON_parse d c = Inr r \<longrightarrow>
        new_effects w (fst file1) = [GetItem h] \<and> results (snd file1) = Some r) \<and>
     (getItem_rejects d2 h = None \<and> storage (fst file1) h = Some c \<and> c \<noteq> [] \<longrightarrow>
        length (http_calls (new_effects w (fst (checkVirusTotal d2 h file1)))) \<le> 1 \<and>
        (\<forall>r. JSON_parse d2 c = Inr r \<longrightarrow> results (snd (checkVirusTotal d2 h file1)) = Some r)) \<and>
     (storage (fst file1) \<noteq> storage w \<and> getItem_rejects d2 h = None \<and>
      results (snd file1) = Some x \<and>
      JSON_stringify d x \<noteq> [] \<and> JSON_parse d2 (JSON_stringify d x) = Inr x \<longrightarrow>
        results (snd (checkVirusTotal d2 h file1)) = Some x \<and>
        new_effects (fst file1) (fst (checkVirusTotal d2 h file1)) = [GetItem h]) \<and>
     (matches_sha256 (shaInput hui) \<longrightarrow>
        (\<exists>rest. new_effects w (fst hash1) = GetItem (shaInput hui) # rest) \<and>
        (getItem_rejects d (shaInput hui) = None \<and> storage w (shaInput hui) = Some c \<and> c \<noteq> [] \<and>
         JSON_parse d c = Inr r \<longrightarrow>
           new_effects w (fst hash1) = [GetItem (shaInput hui)] \<and>
           shaResults (snd hash1) = Some r) \<and>
        (getItem_rejects d2 (shaInput hui) = None \<and>
         storage (fst hash1) (shaInput hui) = Some c \<and> c \<noteq> [] \<longrightarrow>
           length (http_calls (new_effects w (fst (checkHash d2 hash1)))) \<le> 1 \<and>
           (\<forall>r. JSON_parse d2 c = Inr r \<longrightarrow> shaResults (snd (checkHash d2 hash1)) = Some r)) \<and>
        (storage (fst hash1) \<noteq> storage w \<and> getItem_rejects d2 (shaInput hui) = None \<and>
         shaResults (snd hash1) = Some x \<and>
         JSON_stringify d x \<noteq> [] \<and> JSON_parse d2 (JSON_stringify d x) = Inr x \<longrightarrow>
           shaResults (snd (checkHash d2 hash1)) = Some x \<and>
           new_effects (fst hash1) (fst (checkHash d2 hash1)) = [GetItem (shaInput hui)]))"
proof -
  have f1: "\<exists>rest. new_effects w (fst file1) = GetItem h # rest"
    unfolding file1_def using checkVirusTotal_new_effects [of w d h ui] by blast
  have f2: "new_effects w (fst file1) = [GetItem h] \<and> results (snd file1) = Some r"
    if "getItem_rejects d h = None" "storage w h = Some c" "c \<noteq> []" "JSON_parse d c = Inr r"
    unfolding file1_def using checkVirusTotal_hit [OF that(1,2,3), of ui] that(4) by simp
  have f3: "length (http_calls (new_effects w (fst (checkVirusTotal d2 h file1)))) \<le> 1"
    if "getItem_rejects d2 h = None" "storage (fst file1) h = Some c" "c \<noteq> []"
    using checkVirusTotal_twice [of d2 h d w ui c] that
    unfolding file1_def by (auto simp: http_calls_def)
  have f4: "results (snd (checkVirusTotal d2 h file1)) = Some r'"
    if "getItem_rejects d2 h = None" "storage (fst file1) h = Some c" "c \<noteq> []"
      "JSON_parse d2 c = Inr r'" for r'
    using checkVirusTotal_hit [OF that(1,2,3), of "snd file1"] that(4) by simp
  have f5: "results (snd (checkVirusTotal d2 h file1)) = Some x \<and>
        new_effects (fst file1) (fst (checkVirusTotal d2 h file1)) = [GetItem h]"
    if "storage (fst file1) \<noteq> storage w" "getItem_rejects d2 h = None"
      "results (snd file1) = Some x"
      "JSON_stringify d x \<noteq> []" "JSON_parse d2 (JSON_stringify d x) = Inr x"
    using checkVirusTotal_second_same [of d h w ui d2 x] that unfolding file1_def by blast
  have h1: "\<exists>rest. new_effects w (fst hash1) = GetItem (shaInput hui) # rest"
    if "matches_sha256 (shaInput hui)"
    unfolding hash1_def using checkHash_new_effects [OF that, of w d] by blast
  have h2: "new_effects w (fst hash1) = [GetItem (shaInput hui)] \<and> shaResults (snd hash1) = Some r"
    if "matches_sha256 (shaInput hui)" "getItem_rejects d (shaInput hui) = None"
      "storage w (shaInput hui) = Some c" "c \<noteq> []" "JSON_parse d c = Inr r"
    unfolding hash1_def using checkHash_hit [OF that(1,2,3,4)] that(5) by simp
  have h3: "length (http_calls (new_effects w (fst (checkHash d2 hash1)))) \<le> 1"
    if "matches_sha256 (shaInput hui)" "getItem_rejects d2 (shaInput hui) = None"
      "storage (fst hash1) (shaInput hui) = Some c" "c \<noteq> []"
    using checkHash_twice [of hui d2 d w c] that
    unfolding hash1_def by (auto simp: http_calls_def)
  have h4: "shaResults (snd (checkHash d2 hash1)) = Some r'"
    if "matches_sha256 (shaInput hui)" "getItem_rejects d2 (shaInput hui) = None"
      "storage (fst hash1) (shaInput hui) = Some c" "c \<noteq> []" "JSON_parse d2 c = Inr r'" for r'
  proof -
    have m: "matches_sha256 (shaInput (snd hash1))" "getItem_rejects d2 (shaInput (snd hash1)) = None"
      "storage (fst hash1) (shaInput (snd hash1)) = Some c"
      using that unfolding hash1_def by simp_all
    show ?thesis
      using checkHash_hit [OF m that(4)] that(5) by simp
  qed
  have h5: "shaResults (snd (checkHash d2 hash1)) = Some x \<and>
        new_effects (fst hash1) (fst (checkHash d2 hash1)) = [GetItem (shaInput hui)]"
    if "storage (fst hash1) \<noteq> storage w" "getItem_rejects d2 (shaInput hui) = None"
      "shaResults (snd hash1) = Some x"
      "JSON_stringify d x \<noteq> []" "JSON_parse d2 (JSON_stringify d x) = Inr x"
    using checkHash_second_same [of d w hui d2 x] that unfolding hash1_def by blast
  show ?thesis
    apply (intro conjI impI allI)
    subgoal using f1 by blast
    subgoal using f2 by blast
    subgoal using f2 by blast
    subgoal using f3 by blast
    subgoal using f4 by blast
    subgoal using f5 by blast
    subgoal using f5 by blast
    subgoal using h1 by blast
    subgoal using h2 by blast
    subgoal using h2 by blast
    subgoal using h3 by blast
    subgoal using h4 by blast
    subgoal using h5 by blast
    subgoal using h5 by blast
    done
qed

text \<open>
  The file \<open>a.bin\<close>'s fingerprint looked up twice from an empty cache, and the same
  fingerprint typed into the hash screen twice: the first lookup requests the report and
  stores it, the second reads the cache only and shows the same result.
\<close>

theorem cache_hit_skips_network_witness:
  "(let st1 = checkVirusTotal sample_deps fp_lower (world0, file_screen0);
        st2 = checkVirusTotal sample_deps fp_lower st1
    in storage (fst st1) fp_lower = Some sample_text \<and>
       results (snd st1) = Some sample_result \<and>
       results (snd st2) = Some sample_result \<and>
       new_effects (fst st1) (fst st2) = [GetItem fp_lower] \<and>
       length (http_calls (new_effects world0 (fst st2))) \<le> 1) \<and>
   (let st1 = checkHash sample_deps (world0, hash_screen0\<lparr>shaInput := fp_lower\<rparr>);
        st2 = checkHash sample_deps st1
    in storage (fst st1) fp_lower = Some sample_text \<and>
       shaResults (snd st1) = Some sample_result \<and>
       shaResults (snd st2) = Some sample_result \<and>
       new_effects (fst st1) (fst st2) = [GetItem fp_lower] \<and>
       length (http_calls (new_effects world0 (fst st2))) \<le> 1)"
proof -
  let ?hui = "hash_screen0\<lparr>shaInput := fp_lower\<rparr>"
  have d: "getItem_rejects sample_deps fp_lower = None"
    "setItem_rejects sample_deps fp_lower sample_text = None"
    "axios_get sample_deps (report_url fp_lower) = Inr sample_report"
    "JSON_stringify sample_deps sample_result = sample_text"
    "JSON_parse sample_deps sample_text = Inr sample_result"
    "sample_text \<noteq> []"
    by (simp_all add: sample_deps_def sample_text_def)
  have r: "last_analysis_results sample_report =
             Some (the (last_analysis_results sample_report))"
    by (simp add: sample_report_def)
  have e: "or_else (storage world0 fp_lower) [] = []"
    by (simp add: world0_def or_else_def)
  have f: "checkVirusTotal sample_deps fp_lower (world0, file_screen0) =
      (world0\<lparr>trace := trace world0 @ [GetItem fp_lower,
                 HttpGet (report_url fp_lower) VIRUSTOTAL_API_KEY,
                 SetItem fp_lower sample_text],
              storage := (storage world0)(fp_lower \<mapsto> sample_text)\<rparr>,
       file_screen0\<lparr>results := Some sample_result, loading := False\<rparr>)"
    using checkVirusTotal_fetched [OF d(1) e d(3) r sample_result_eq [symmetric]] d
    by (simp add: sample_deps_def)
  have g: "checkHash sample_deps (world0, ?hui) =
      (world0\<lparr>trace := trace world0 @ [GetItem fp_lower,
                 HttpGet (report_url fp_lower) VIRUSTOTAL_API_KEY,
                 SetItem fp_lower sample_text],
              storage := (storage world0)(fp_lower \<mapsto> sample_text)\<rparr>,
       ?hui\<lparr>shaResults := Some sample_result, shaLoading := False, shaError := [],
             progressAnim := Finite 1\<rparr>)"
    using checkHash_fetched [of ?hui sample_deps world0 sample_report
        "the (last_analysis_results sample_report)" sample_result]
      matches_fp_lower d e r sample_result_eq
    by (simp add: sample_deps_def hash_screen0_def)
  let ?f1 = "checkVirusTotal sample_deps fp_lower (world0, file_screen0)"
  let ?h1 = "checkHash sample_deps (world0, ?hui)"
  have si: "shaInput ?hui = fp_lower" by simp
  have f1: "storage (fst ?f1) fp_lower = Some sample_text"
    "results (snd ?f1) = Some sample_result" "storage (fst ?f1) \<noteq> storage world0"
    unfolding f by (simp_all add: world0_def fun_eq_iff)
  have h1: "storage (fst ?h1) fp_lower = Some sample_text"
    "shaResults (snd ?h1) = Some sample_result" "storage (fst ?h1) \<noteq> storage world0"
    unfolding g by (simp_all add: world0_def fun_eq_iff)
  note T = cache_hit_skips_network [where d = sample_deps and ?d2.0 = sample_deps
        and h = fp_lower and w = world0 and ui = file_screen0 and hui = ?hui
        and c = sample_text and x = sample_result and r = sample_result, unfolded si]
  have A: "results (snd (checkVirusTotal sample_deps fp_lower ?f1)) = Some sample_result \<and>
      new_effects (fst ?f1) (fst (checkVirusTotal sample_deps fp_lower ?f1)) = [GetItem fp_lower]"
    using T by (simp add: f1 d)
  have B: "length (http_calls (new_effects world0
      (fst (checkVirusTotal sample_deps fp_lower ?f1)))) \<le> 1"
    using T by (simp add: f1 d)
  have C: "shaResults (snd (checkHash sample_deps ?h1)) = Some sample_result \<and>
      new_effects (fst ?h1) (fst (checkHash sample_deps ?h1)) = [GetItem fp_lower]"
    using T by (simp add: h1 d matches_fp_lower)
  have D: "length (http_calls (new_effects world0 (fst (checkHash sample_deps ?h1)))) \<le> 1"
    using T by (simp add: h1 d matches_fp_lower)
  show ?thesis
    unfolding Let_def using f1 h1 A B C D by blast
qed

text \<open>
  Claim C6. In both flows, a lookup that misses the cache, receives a report with the
  per-engine results and whose cache write succeeds stores the text of the normalized
  result under the fingerprint and then shows that result; the write is the last
  external call of the lookup. Whatever the collaborators answer, a lookup changes the
  cache in that one way or not at all: in particular a failed request leaves it as it
  was, and after a miss a new result is shown only once its text is in the cache. A
  non-empty entry, once in the cache, stays as it is through every later sequence of
  actions on the two screens, so a later lookup of its fingerprint shows what that entry
  parses to without a report request.
\<close>

theorem cache_written_once_on_success:
  fixes d d2 :: deps and h :: string and w :: world and ui :: file_screen
    and hui :: hash_screen and a :: app and das :: "(deps \<times> action) list"
  defines "file1 \<equiv> checkVirusTotal d h (w, ui)"
      and "hash1 \<equiv> checkHash d (w, hui)"
      and "later \<equiv> run das a"
  shows
    "(getItem_rejects d h = None \<and> or_else (storage w h) [] = [] \<and>
      axios_get d (report_url h) = Inr response \<and>
      last_analysis_results response = Some analysisResults \<and>
      resultData = \<lparr>stats = last_analysis_stats response,
                     vendors = map vendorEntry analysisResults\<rparr> \<and>
      setItem_rejects d h (JSON_stringify d resultData) = None \<longrightarrow>
        storage (fst file1) = (storage w)(h \<mapsto> JSON_stringify d resultData) \<and>
        results (snd file1) = Some resultData \<and>
        new_effects w (fst file1) =
          [GetItem h, HttpGet (report_url h) VIRUSTOTAL_API_KEY,
           SetItem h (JSON_stringify d resultData)]) \<and>
     (storage (fst file1) = storage w \<or>
      (\<exists>response analysisResults.
         or_else (storage w h) [] = [] \<and>
         axios_get d (report_url h) = Inr response \<and>
         last_analysis_results response = Some analysisResults \<and>
         storage (fst file1) =
           (storage w)(h \<mapsto> JSON_stringify d
              \<lparr>stats = last_analysis_stats response,
               vendors = map vendorEntry analysisResults\<rparr>) \<and>
         results (snd file1) =
           Some \<lparr>stats = last_analysis_stats response,
                 vendors = map vendorEntry analysisResults\<rparr>)) \<and>
     (axios_get d (report_url h) = Inl err \<longrightarrow> storage (fst file1) = storage w) \<and>
     (or_else (storage w h) [] = [] \<longrightarrow>
        results (snd file1) = results ui \<or>
        (\<exists>shown. results (snd file1) = Some shown \<and>
           storage (fst file1) h = Some (JSON_stringify d shown))) \<and>
     (matches_sha256 (shaInput hui) \<and>
      getItem_rejects d (shaInput hui) = None \<and> or_else (storage w (shaInput hui)) [] = [] \<and>
      axios_get d (report_url (shaInput hui)) = Inr response \<and>
      last_analysis_results response = Some analysisResults \<and>
      resultData = \<lparr>stats = last_analysis_stats response,
                     vendors = map vendorEntry analysisResults\<rparr> \<and>
      setItem_rejects d (shaInput hui) (JSON_stringify d resultData) = None \<longrightarrow>
        storage (fst hash1) = (storage w)(shaInput hui \<mapsto> JSON_stringify d resultData) \<and>
        shaResults (snd hash1) = Some resultData \<and>
        new_effects w (fst hash1) =
          [GetItem (shaInput hui), HttpGet (report_url (shaInput hui)) VIRUSTOTAL_API_KEY,
           SetItem (shaInput hui) (JSON_stringify d resultData)]) \<and>
     (storage (fst hash1) = storage w \<or>
      (\<exists>response analysisResults.
         matches_sha256 (shaInput hui) \<and>
         or_else (storage w (shaInput hui)) [] = [] \<and>
         axios_get d (report_url (shaInput hui)) = Inr response \<and>
         last_analysis_results response = Some analysisResults \<and>
         storage (fst hash1) =
           (storage w)(shaInput hui \<mapsto> JSON_stringify d
              \<lparr>stats = last_analysis_stats response,
               vendors = map vendorEntry analysisResults\<rparr>) \<and>
         shaResults (snd hash1) =
           Some \<lparr>stats = last_analysis_stats response,
                 vendors = map vendorEntry analysisResults\<rparr>)) \<and>
     (axios_get d (report_url (shaInput hui)) = Inl err \<longrightarrow> storage (fst hash1) = storage w) \<and>
     (or_else (storage w (shaInput hui)) [] = [] \<longrightarrow>
        shaResults (snd hash1) = shaResults hui \<or>
        (\<exists>shown. shaResults (snd hash1) = Some shown \<and>
           storage (fst hash1) (shaInput hui) = Some (JSON_stringify d shown))) \<and>
     (storage (app_world a) k = Some c \<and> c \<noteq> [] \<longrightarrow>
        storage (app_world later) k = Some c \<and>
        (getItem_rejects d2 k = None \<and> JSON_parse d2 c = Inr r \<longrightarrow>
           results (snd (checkVirusTotal d2 k (app_world later, file_ui later))) = Some r \<and>
           new_effects (app_world later)
             (fst (checkVirusTotal d2 k (app_world later, file_ui later))) = [GetItem k] \<and>
           (matches_sha256 k \<longrightarrow>
              shaResults (snd (checkHash d2
                (app_world later, (hash_ui later)\<lparr>shaInput := k\<rparr>))) = Some r \<and>
              new_effects (app_world later) (fst (checkHash d2
                (app_world later, (hash_ui later)\<lparr>shaInput := k\<rparr>))) = [GetItem k])))"
proof -
  have f1: "storage (fst file1) = (storage w)(h \<mapsto> JSON_stringify d resultData) \<and>
        results (snd file1) = Some resultData \<and>
        new_effects w (fst file1) =
          [GetItem h, HttpGet (report_url h) VIRUSTOTAL_API_KEY,
           SetItem h (JSON_stringify d resultData)]"
    if "getItem_rejects d h = None" "or_else (storage w h) [] = []"
      "axios_get d (report_url h) = Inr response"
      "last_analysis_results response = Some analysisResults"
      "resultData = \<lparr>stats = last_analysis_stats response,
                     vendors = map vendorEntry analysisResults\<rparr>"
      "setItem_rejects d h (JSON_stringify d resultData) = None"
    unfolding file1_def checkVirusTotal_fetched [OF that]
    by (simp add: new_effects_def)
  note f2 = checkVirusTotal_storage [of d h w ui, folded file1_def]
  have f3: "storage (fst file1) = storage w" if "axios_get d (report_url h) = Inl err"
    using f2 that by auto
  have f4: "results (snd file1) = results ui \<or>
        (\<exists>shown. results (snd file1) = Some shown \<and>
           storage (fst file1) h = Some (JSON_stringify d shown))"
    if "or_else (storage w h) [] = []"
    using that unfolding file1_def
    by (auto simp: checkVirusTotal_def checkVirusTotal_catch_def Let_def
        split: option.splits sum.splits)
  have h1: "storage (fst hash1) = (storage w)(shaInput hui \<mapsto> JSON_stringify d resultData) \<and>
        shaResults (snd hash1) = Some resultData \<and>
        new_effects w (fst hash1) =
          [GetItem (shaInput hui), HttpGet (report_url (shaInput hui)) VIRUSTOTAL_API_KEY,
           SetItem (shaInput hui) (JSON_stringify d resultData)]"
    if "matches_sha256 (shaInput hui)"
      "getItem_rejects d (shaInput hui) = None" "or_else (storage w (shaInput hui)) [] = []"
      "axios_get d (report_url (shaInput hui)) = Inr response"
      "last_analysis_results response = Some analysisResults"
      "resultData = \<lparr>stats = last_analysis_stats response,
                     vendors = map vendorEntry analysisResults\<rparr>"
      "setItem_rejects d (shaInput hui) (JSON_stringify d resultData) = None"
    unfolding hash1_def checkHash_fetched [OF that]
    by (simp add: new_effects_def)
  note h2 = checkHash_storage [of d w hui, folded hash1_def]
  have h3: "storage (fst hash1) = storage w"
    if "axios_get d (report_url (shaInput hui)) = Inl err"
    using h2 that by auto
  have h4: "shaResults (snd hash1) = shaResults hui \<or>
        (\<exists>shown. shaResults (snd hash1) = Some shown \<and>
           storage (fst hash1) (shaInput hui) = Some (JSON_stringify d shown))"
    if "or_else (storage w (shaInput hui)) [] = []"
    using that unfolding hash1_def
    by (auto simp: checkHash_def checkHash_catch_def Let_def
        split: option.splits sum.splits)
  have k1: "storage (app_world later) k = Some c"
    if "storage (app_world a) k = Some c" "c \<noteq> []"
    unfolding later_def using run_keeps_entry [OF that] .
  have k2: "results (snd (checkVirusTotal d2 k (app_world later, file_ui later))) = Some r \<and>
           new_effects (app_world later)
             (fst (checkVirusTotal d2 k (app_world later, file_ui later))) = [GetItem k]"
    if "storage (app_world a) k = Some c" "c \<noteq> []"
      "getItem_rejects d2 k = None" "JSON_parse d2 c = Inr r"
    using checkVirusTotal_hit [OF that(3) k1 [OF that(1,2)] that(2), of "file_ui later"] that(4)
    by (simp add: new_effects_def)
  have k3: "shaResults (snd (checkHash d2
                (app_world later, (hash_ui later)\<lparr>shaInput := k\<rparr>))) = Some r \<and>
              new_effects (app_world later) (fst (checkHash d2
                (app_world later, (hash_ui later)\<lparr>shaInput := k\<rparr>))) = [GetItem k]"
    if "storage (app_world a) k = Some c" "c \<noteq> []"
      "getItem_rejects d2 k = None" "JSON_parse d2 c = Inr r" "matches_sha256 k"
    using checkHash_hit [of "(hash_ui later)\<lparr>shaInput := k\<rparr>" d2 "app_world later" c]
      k1 [OF that(1,2)] that
    by (simp add: new_effects_def)
  show ?thesis
    apply (intro conjI impI)
    subgoal using f1 by blast
    subgoal using f1 by blast
    subgoal using f1 by blast
    subgoal using f2 by blast
    subgoal using f3 by blast
    subgoal using f4 by blast
    subgoal using h1 by blast
    subgoal using h1 by blast
    subgoal using h1 by blast
    subgoal using h2 by blast
    subgoal using h3 by blast
    subgoal using h4 by blast
    subgoal using k1 by blast
    subgoal using k2 by blast
    subgoal using k2 by blast
    subgoal using k3 by blast
    subgoal using k3 by blast
    done
qed


text \<open>
  From an empty cache the sample lookup stores and shows the sample result; with the
  network down nothing is stored; and the cached entry survives the later session, after
  which either screen shows it again without a report request.
\<close>

theorem cache_written_once_on_success_witness:
  "(let st = checkVirusTotal sample_deps fp_lower (world0, file_screen0)
    in storage (fst st) = (storage world0)(fp_lower \<mapsto> sample_text) \<and>
       results (snd st) = Some sample_result \<and>
       new_effects world0 (fst st) =
         [GetItem fp_lower, HttpGet (report_url fp_lower) VIRUSTOTAL_API_KEY,
          SetItem fp_lower sample_text]) \<and>
   storage (fst (checkVirusTotal offline_deps fp_lower (world0, file_screen0))) =
     storage world0 \<and>
   (let later = run later_actions cached_app
    in storage (app_world later) fp_lower = Some sample_text \<and>
       results (snd (checkVirusTotal sample_deps fp_lower (app_world later, file_ui later))) =
         Some sample_result \<and>
       shaResults (snd (checkHash sample_deps
         (app_world later, (hash_ui later)\<lparr>shaInput := fp_lower\<rparr>))) = Some sample_result)"
proof -
  have d: "getItem_rejects sample_deps fp_lower = None"
    "setItem_rejects sample_deps fp_lower sample_text = None"
    "axios_get sample_deps (report_url fp_lower) = Inr sample_report"
    "JSON_stringify sample_deps sample_result = sample_text"
    "JSON_parse sample_deps sample_text = Inr sample_result"
    "sample_text \<noteq> []"
    "axios_get offline_deps (report_url fp_lower) = Inl network_error"
    by (simp_all add: sample_deps_def offline_deps_def sample_text_def)
  have r: "last_analysis_results sample_report =
             Some (the (last_analysis_results sample_report))"
    by (simp add: sample_report_def)
  have e: "or_else (storage world0 fp_lower) [] = []"
    by (simp add: world0_def or_else_def)
  have c: "storage (app_world cached_app) fp_lower = Some sample_text"
    by (simp add: cached_app_def world0_def)
  note T1 = cache_written_once_on_success [where d = sample_deps and h = fp_lower
      and w = world0 and ui = file_screen0 and response = sample_report
      and analysisResults = "the (last_analysis_results sample_report)"
      and resultData = sample_result and a = cached_app and das = later_actions
      and k = fp_lower and c = sample_text and ?d2.0 = sample_deps and r = sample_result]
  note T2 = cache_written_once_on_success [where d = offline_deps and h = fp_lower
      and w = world0 and ui = file_screen0 and err = network_error]
  have A: "storage (fst (checkVirusTotal sample_deps fp_lower (world0, file_screen0))) =
        (storage world0)(fp_lower \<mapsto> sample_text) \<and>
      results (snd (checkVirusTotal sample_deps fp_lower (world0, file_screen0))) =
        Some sample_result \<and>
      new_effects world0 (fst (checkVirusTotal sample_deps fp_lower (world0, file_screen0))) =
        [GetItem fp_lower, HttpGet (report_url fp_lower) VIRUSTOTAL_API_KEY,
         SetItem fp_lower sample_text]"
    using T1 d e r sample_result_eq by simp
  have B: "storage (fst (checkVirusTotal offline_deps fp_lower (world0, file_screen0))) =
      storage world0"
    using T2 d(7) by blast
  have C: "storage (app_world (run later_actions cached_app)) fp_lower = Some sample_text \<and>
      results (snd (checkVirusTotal sample_deps fp_lower
        (app_world (run later_actions cached_app), file_ui (run later_actions cached_app)))) =
        Some sample_result \<and>
      shaResults (snd (checkHash sample_deps
        (app_world (run later_actions cached_app),
         (hash_ui (run later_actions cached_app))\<lparr>shaInput := fp_lower\<rparr>))) =
        Some sample_result"
    using T1 c d matches_fp_lower by simp
  show ?thesis
    unfolding Let_def using A B C by blast
qed

text \<open>
  Claim C7. When a lookup of either screen fetches a report, the result it stores and
  shows carries the report's counts and one vendor entry per engine, in the order of the
  per-engine object: entry \<open>i\<close> has the engine's name and category, and its result is
  \<open>Clean\<close> when the engine's result string is absent or empty and the engine's own
  string otherwise.
\<close>

theorem vendors_normalized:
  fixes d :: deps and h :: string and w :: world and ui :: file_screen and hui :: hash_screen
    and response :: report and analysisResults :: "(string \<times> engine_data) list"
  defines "shown \<equiv> \<lparr>stats = last_analysis_stats response,
                       vendors = map vendorEntry analysisResults\<rparr>"
  shows
    "(getItem_rejects d h = None \<and> or_else (storage w h) [] = [] \<and>
      axios_get d (report_url h) = Inr response \<and>
      last_analysis_results response = Some analysisResults \<and>
      setItem_rejects d h (JSON_stringify d shown) = None \<longrightarrow>
        results (snd (checkVirusTotal d h (w, ui))) = Some shown) \<and>
     (matches_sha256 (shaInput hui) \<and>
      getItem_rejects d (shaInput hui) = None \<and> or_else (storage w (shaInput hui)) [] = [] \<and>
      axios_get d (report_url (shaInput hui)) = Inr response \<and>
      last_analysis_results response = Some analysisResults \<and>
      setItem_rejects d (shaInput hui) (JSON_stringify d shown) = None \<longrightarrow>
        shaResults (snd (checkHash d (w, hui))) = Some shown) \<and>
     length (vendors shown) = length analysisResults \<and>
     (\<forall>i<length analysisResults.
        vendor (vendors shown ! i) = fst (analysisResults ! i) \<and>
        category (vendors shown ! i) = engine_category (snd (analysisResults ! i)) \<and>
        (engine_result (snd (analysisResults ! i)) = None \<or>
         engine_result (snd (analysisResults ! i)) = Some [] \<longrightarrow>
           result (vendors shown ! i) = ''Clean'') \<and>
        (\<forall>t. engine_result (snd (analysisResults ! i)) = Some t \<and> t \<noteq> [] \<longrightarrow>
           result (vendors shown ! i) = t))"
proof -
  have sd: "shown = \<lparr>stats = last_analysis_stats response,
                     vendors = map vendorEntry analysisResults\<rparr>"
    by (simp add: shown_def)
  have f: "results (snd (checkVirusTotal d h (w, ui))) = Some shown"
    if "getItem_rejects d h = None" "or_else (storage w h) [] = []"
      "axios_get d (report_url h) = Inr response"
      "last_analysis_results response = Some analysisResults"
      "setItem_rejects d h (JSON_stringify d shown) = None"
    using checkVirusTotal_fetched [OF that(1,2,3,4) sd that(5), of ui] by simp
  have g: "shaResults (snd (checkHash d (w, hui))) = Some shown"
    if "matches_sha256 (shaInput hui)"
      "getItem_rejects d (shaInput hui) = None" "or_else (storage w (shaInput hui)) [] = []"
      "axios_get d (report_url (shaInput hui)) = Inr response"
      "last_analysis_results response = Some analysisResults"
      "setItem_rejects d (shaInput hui) (JSON_stringify d shown) = None"
    using checkHash_fetched [OF that(1,2,3,4,5) sd that(6)] by simp
  have v: "length (vendors shown) = length analysisResults"
    by (simp add: shown_def)
  have e: "vendor (vendors shown ! i) = fst (analysisResults ! i) \<and>
        category (vendors shown ! i) = engine_category (snd (analysisResults ! i)) \<and>
        (engine_result (snd (analysisResults ! i)) = None \<or>
         engine_result (snd (analysisResults ! i)) = Some [] \<longrightarrow>
           result (vendors shown ! i) = ''Clean'') \<and>
        (\<forall>t. engine_result (snd (analysisResults ! i)) = Some t \<and> t \<noteq> [] \<longrightarrow>
           result (vendors shown ! i) = t)"
    if "i < length analysisResults" for i
    using that by (auto simp: shown_def vendorEntry_def or_else_def)
  show ?thesis
    apply (intro conjI impI allI)
    subgoal using f by blast
    subgoal using g by blast
    subgoal using v by blast
    subgoal using e by blast
    subgoal using e by blast
    subgoal using e by blast
    subgoal using e by blast
    done
qed

text \<open>
  The sample report: \<open>EngineA\<close> keeps its result, \<open>EngineB\<close>, which reports none,
  becomes \<open>Clean\<close>.
\<close>

theorem vendors_normalized_witness:
  "results (snd (checkVirusTotal sample_deps fp_lower (world0, file_screen0))) =
     Some sample_result \<and>
   shaResults (snd (checkHash sample_deps (world0, hash_screen0\<lparr>shaInput := fp_lower\<rparr>))) =
     Some sample_result \<and>
   map vendor (vendors sample_result) = [''EngineA'', ''EngineB''] \<and>
   map result (vendors sample_result) = [''Trojan.Generic'', ''Clean''] \<and>
   engine_result (snd (the (last_analysis_results sample_report) ! 1)) = None \<and>
   result (vendors sample_result ! 1) = ''Clean''"
proof -
  let ?hui = "hash_screen0\<lparr>shaInput := fp_lower\<rparr>"
  have si: "shaInput ?hui = fp_lower" by simp
  have d: "getItem_rejects sample_deps fp_lower = None"
    "setItem_rejects sample_deps fp_lower sample_text = None"
    "axios_get sample_deps (report_url fp_lower) = Inr sample_report"
    "JSON_stringify sample_deps sample_result = sample_text"
    by (simp_all add: sample_deps_def)
  have r: "last_analysis_results sample_report =
             Some (the (last_analysis_results sample_report))"
    by (simp add: sample_report_def)
  have n: "(1::nat) < length (the (last_analysis_results sample_report))"
    "engine_result (snd (the (last_analysis_results sample_report) ! 1)) = None"
    by (simp_all add: sample_report_def)
  have e: "or_else (storage world0 fp_lower) [] = []"
    by (simp add: world0_def or_else_def)
  note T = vendors_normalized [where d = sample_deps and h = fp_lower and w = world0
      and ui = file_screen0 and hui = ?hui and response = sample_report
      and analysisResults = "the (last_analysis_results sample_report)",
      unfolded si sample_result_eq]
  have A: "results (snd (checkVirusTotal sample_deps fp_lower (world0, file_screen0))) =
     Some sample_result"
    using T d e r by simp
  have B: "shaResults (snd (checkHash sample_deps (world0, ?hui))) = Some sample_result"
    using T d e r matches_fp_lower by simp
  have C: "result (vendors sample_result ! 1) = ''Clean''"
    using T n by blast
  have D: "map vendor (vendors sample_result) = [''EngineA'', ''EngineB'']"
    "map result (vendors sample_result) = [''Trojan.Generic'', ''Clean'']"
    by (simp_all add: sample_result_def)
  show ?thesis
    using A B C D n(2) by blast
qed

section \<open>Failures\<close>

text \<open>
  A lookup of the file screen ends in exactly one of two ways: it shows a result and
  leaves the error message as it was, or it leaves the result as it was and sets the
  message \<open>VirusTotal Error: \<close> followed by the text of the error. It never requests the
  report more than once.
\<close>

lemma checkVirusTotal_outcome:
  "loading (snd (checkVirusTotal d h (w, ui))) = False \<and>
   length (http_calls (new_effects w (fst (checkVirusTotal d h (w, ui))))) \<le> 1 \<and>
   ((\<exists>shown. results (snd (checkVirusTotal d h (w, ui))) = Some shown \<and>
       error (snd (checkVirusTotal d h (w, ui))) = error ui) \<or>
    (\<exists>err. error (snd (checkVirusTotal d h (w, ui))) = ''VirusTotal Error: '' @ error_text err \<and>
       results (snd (checkVirusTotal d h (w, ui))) = results ui))"
  by (auto simp: checkVirusTotal_def checkVirusTotal_catch_def Let_def new_effects_def
      http_calls_def split: option.splits sum.splits)

lemma checkHash_outcome:
  assumes "matches_sha256 (shaInput ui)"
  shows "shaLoading (snd (checkHash d (w, ui))) = False \<and>
   length (http_calls (new_effects w (fst (checkHash d (w, ui))))) \<le> 1 \<and>
   ((\<exists>shown. shaResults (snd (checkHash d (w, ui))) = Some shown \<and>
       shaError (snd (checkHash d (w, ui))) = []) \<or>
    (\<exists>err. shaError (snd (checkHash d (w, ui))) = ''VirusTotal Error: '' @ error_text err \<and>
       shaResults (snd (checkHash d (w, ui))) = shaResults ui))"
  using assms
  by (auto simp: checkHash_def checkHash_catch_def Let_def new_effects_def
      http_calls_def split: option.splits sum.splits)

text \<open>
  A failed report request is not repeated: the request is the only one of the lookup and
  its error text is what the screen shows.
\<close>

lemma failed_request_is_shown_once:
  assumes "getItem_rejects d h = None" "or_else (storage w h) [] = []"
    "axios_get d (report_url h) = Inl err"
  shows "checkVirusTotal d h (w, ui) =
     (w\<lparr>trace := trace w @ [GetItem h, HttpGet (report_url h) VIRUSTOTAL_API_KEY]\<rparr>,
      ui\<lparr>error := ''VirusTotal Error: '' @ error_text err, loading := False\<rparr>)"
  using assms
  by (simp add: checkVirusTotal_def checkVirusTotal_catch_def Let_def)

text \<open>A picker failure and a failure to fetch the picked file are shown as messages.\<close>

lemma picker_failure_is_shown:
  assumes "getDocumentAsync d = Inl err"
  shows "pickDocument d (w, ui) = (w, ui\<lparr>error := ''Error picking file: '' @ message err\<rparr>)"
  using assms by (simp add: pickDocument_def)

lemma fetch_failure_is_shown:
  assumes "fetch_uri d uri = Inl err"
  shows "generateHash d uri (w, ui) =
     (w\<lparr>trace := trace w @ [FetchUri uri]\<rparr>,
      ui\<lparr>error := ''Error generating hash: '' @ message err, loading := False\<rparr>)"
  using assms by (simp add: generateHash_def Let_def)

text \<open>
  Claim C9 on the code. The digest of the picked file is computed in the \<open>onload\<close>
  callback, after \<open>generateHash\<close> has left its \<open>try\<close>. When the digest rejects, or when
  the read of the file fails, no handler runs: the screen shows no message, \<open>loading\<close>
  stays true, and with it the Select File button stays disabled, so picking again does
  nothing.
\<close>

theorem digest_failure_is_not_shown:
  "(let st = pickDocument failing_digest_deps (world0, file_screen0)
    in error (snd st) = [] \<and> loading (snd st) = True \<and> results (snd st) = None \<and>
       new_effects world0 (fst st) = [FetchUri ''file:///a.bin''] \<and>
       pickDocument failing_read_deps (world0, file_screen0) = st \<and>
       (let stuck = \<lparr>app_world = fst st, file_ui = snd st, hash_ui = hash_screen0\<rparr>
        in step sample_deps PickFile stuck = stuck))"
  by (simp add: pickDocument_def generateHash_def failing_digest_deps_def failing_read_deps_def
      sample_deps_def sample_asset_def world0_def file_screen0_def new_effects_def Let_def)

text \<open>
  Claim C10. The hash screen's check accepts a 64-character string of hexadecimal digits
  in either case, and the string as typed is the cache key of the read and of the write
  and, character for character, what follows
  \<open>https://www.virustotal.com/api/v3/files/\<close> in the URL of the request. A lookup
  therefore neither reads nor changes an entry stored under another spelling, and when
  nothing is stored under the typed spelling it requests the report, whatever is stored
  under the other one. The lower-case and the upper-case spelling of one fingerprint are
  both accepted, are different keys and give different request URLs.
\<close>

theorem hash_key_used_verbatim:
  fixes d :: deps and w :: world and hui :: hash_screen
  defines "typed \<equiv> shaInput hui"
      and "hash1 \<equiv> checkHash d (w, hui)"
      and "request \<equiv>
             HttpGet (''https://www.virustotal.com/api/v3/files/'' @ shaInput hui)
               VIRUSTOTAL_API_KEY"
  shows
    "(length s = 64 \<and> set s \<subseteq> set ''abcdefABCDEF0123456789'' \<longrightarrow> matches_sha256 s) \<and>
     matches_sha256 fp_lower \<and> matches_sha256 fp_upper \<and> fp_lower \<noteq> fp_upper \<and>
     ''https://www.virustotal.com/api/v3/files/'' @ fp_lower \<noteq>
       ''https://www.virustotal.com/api/v3/files/'' @ fp_upper \<and>
     (matches_sha256 typed \<longrightarrow>
        (\<exists>rest. new_effects w (fst hash1) = GetItem typed # rest \<and>
           (rest = [] \<or> rest = [request] \<or> (\<exists>t. rest = [request, SetItem typed t]))) \<and>
        (\<forall>k. k \<noteq> typed \<longrightarrow> storage (fst hash1) k = storage w k) \<and>
        (getItem_rejects d typed = None \<and> storage w typed = None \<longrightarrow>
           http_calls (new_effects w (fst hash1)) = [request]))"
proof -
  have a: "matches_sha256 s" if "length s = 64" "set s \<subseteq> set ''abcdefABCDEF0123456789''"
    using that unfolding matches_sha256_def is_hex_digit_def list_all_iff by blast
  have u: "''https://www.virustotal.com/api/v3/files/'' @ fp_lower \<noteq>
       ''https://www.virustotal.com/api/v3/files/'' @ fp_upper"
    using fp_lower_neq_upper by simp
  have e: "\<exists>rest. new_effects w (fst hash1) = GetItem typed # rest \<and>
           (rest = [] \<or> rest = [request] \<or> (\<exists>t. rest = [request, SetItem typed t]))"
    if "matches_sha256 typed"
    using checkHash_effects [of hui d w] that unfolding typed_def hash1_def request_def
    by (auto simp: new_effects_def report_url_def)
  have k: "storage (fst hash1) k = storage w k" if "k \<noteq> typed" for k
    using checkHash_storage [of d w hui] that unfolding typed_def hash1_def
    by auto
  have m: "http_calls (new_effects w (fst hash1)) = [request]"
    if "matches_sha256 typed" "getItem_rejects d typed = None" "storage w typed = None"
    using that unfolding typed_def hash1_def request_def
    by (auto simp: checkHash_def Let_def new_effects_def http_calls_def or_else_def
        report_url_def split: option.splits sum.splits)
  show ?thesis
    apply (intro conjI impI allI)
    subgoal using a by blast
    subgoal by (rule matches_fp_lower)
    subgoal by (rule matches_fp_upper)
    subgoal by (rule fp_lower_neq_upper)
    subgoal by (rule u)
    subgoal using e by blast
    subgoal using k by blast
    subgoal using m by blast
    done
qed

text \<open>
  With the sample result cached under the lower-case spelling, a check of the upper-case
  spelling reads the cache under the upper-case key, finds nothing, requests the report
  again, at the URL that ends in the upper-case spelling, and leaves the lower-case entry
  as it was.
\<close>

theorem hash_key_used_verbatim_witness:
  "storage (app_world cached_app) fp_lower = Some sample_text \<and>
   matches_sha256 fp_upper \<and>
   (let st = checkHash sample_deps (app_world cached_app, hash_screen0\<lparr>shaInput := fp_upper\<rparr>)
    in http_calls (new_effects (app_world cached_app) (fst st)) =
         [HttpGet (''https://www.virustotal.com/api/v3/files/'' @ fp_upper)
            VIRUSTOTAL_API_KEY] \<and>
       storage (fst st) fp_lower = Some sample_text \<and>
       (\<exists>rest. new_effects (app_world cached_app) (fst st) = GetItem fp_upper # rest))"
proof -
  let ?hui = "hash_screen0\<lparr>shaInput := fp_upper\<rparr>"
  have si: "shaInput ?hui = fp_upper" by simp
  have c: "storage (app_world cached_app) fp_lower = Some sample_text"
    "storage (app_world cached_app) fp_upper = None"
    using fp_lower_neq_upper by (auto simp: cached_app_def world0_def)
  have g: "getItem_rejects sample_deps fp_upper = None"
    by (simp add: sample_deps_def)
  note T = hash_key_used_verbatim [where d = sample_deps and w = "app_world cached_app"
      and hui = ?hui, unfolded si]
  have A: "http_calls (new_effects (app_world cached_app)
        (fst (checkHash sample_deps (app_world cached_app, ?hui)))) =
      [HttpGet (''https://www.virustotal.com/api/v3/files/'' @ fp_upper) VIRUSTOTAL_API_KEY]"
    using T c g matches_fp_upper by blast
  have B: "storage (fst (checkHash sample_deps (app_world cached_app, ?hui))) fp_lower =
      Some sample_text"
    using T c(1) matches_fp_upper fp_lower_neq_upper by metis
  have C: "\<exists>rest. new_effects (app_world cached_app)
        (fst (checkHash sample_deps (app_world cached_app, ?hui))) = GetItem fp_upper # rest"
    using T matches_fp_upper by blast
  show ?thesis
    unfolding Let_def using A B C c(1) matches_fp_upper by blast
qed

section \<open>Angles of the pie chart\<close>

text \<open>The total of finite slice values is their sum.\<close>

lemma foldl_js_add_finite:
  "map slice_value data = map Finite vs \<Longrightarrow>
   foldl (\<lambda>sum item. js_add sum (slice_value item)) (Finite a) data = Finite (a + sum_list vs)"
proof (induction data arbitrary: a vs)
  case Nil
  then show ?case by simp
next
  case (Cons s data)
  then obtain v vs' where vs: "vs = v # vs'" "slice_value s = Finite v"
      "map slice_value data = map Finite vs'"
    by (cases vs) auto
  show ?case using Cons.IH [OF vs(3), of "a + v"] vs by (simp add: add.assoc)
qed

lemma total_of_finite:
  "map slice_value data = map Finite vs \<Longrightarrow> total_of data = Finite (sum_list vs)"
  using foldl_js_add_finite [of data vs 0] by (simp add: total_of_def)

lemma length_slicePaths [simp]:
  "length (slicePaths width height outerRadius total' progress cumulativeAngle index data) =
     length data"
  by (induction data arbitrary: cumulativeAngle index) (simp_all add: Let_def)

text \<open>The start angles do not depend on the progress.\<close>

lemma arc_start_progress:
  "map arc_start (slicePaths width height outerRadius total' p cumulativeAngle index data) =
   map arc_start (slicePaths width height outerRadius total' q cumulativeAngle index data)"
  by (induction data arbitrary: cumulativeAngle index) (simp_all add: Let_def)

text \<open>
  With finite values and a non-zero finite total, slice \<open>i\<close> starts at the sum of the
  full spans before it and ends that far plus its own span times the progress.
\<close>

lemma slicePaths_finite_nth:
  assumes "map slice_value data = map Finite vs" "T \<noteq> 0" "i < length vs"
  shows "arc_start (slicePaths width height outerRadius (Finite T) (Finite p) (Finite c) index data ! i) =
           Finite (c + sum_list (take i (map (span_of T) vs))) \<and>
         arc_end (slicePaths width height outerRadius (Finite T) (Finite p) (Finite c) index data ! i) =
           Finite (c + sum_list (take i (map (span_of T) vs)) + span_of T (vs ! i) * p)"
  using assms
proof (induction data arbitrary: vs c index i)
  case Nil
  then show ?case by simp
next
  case (Cons s data)
  then obtain v vs' where vs: "vs = v # vs'" "slice_value s = Finite v"
      "map slice_value data = map Finite vs'"
    by (cases vs) auto
  have sp: "v * 360 / T = span_of T v" "v * 360 * p / T = span_of T v * p"
    by (simp_all add: span_of_def)
  show ?case
  proof (cases i)
    case 0
    then show ?thesis using vs Cons.prems(2) by (simp add: Let_def sp)
  next
    case (Suc j)
    then have j: "j < length vs'" using Cons.prems(3) vs by simp
    show ?thesis
      using Cons.IH [OF vs(3) Cons.prems(2) j, of "c + span_of T v" "Suc index"] vs Suc
        Cons.prems(2)
      by (simp add: Let_def sp)
  qed
qed

lemma sum_list_span_of:
  "T \<noteq> 0 \<Longrightarrow> sum_list (map (span_of T) vs) = 360 * sum_list vs / T"
  by (induction vs) (simp_all add: span_of_def field_simps)

text \<open>
  The chart of finite values with a positive total, fully drawn: slice \<open>i\<close> spans
  \<open>360 * v\<^sub>i / T\<close> degrees from the sum of the spans before it, the first slice starts
  at angle 0, each slice starts where the one before ends, and the spans add up to 360.
\<close>

lemma chart_spans_proportional:
  fixes vs :: "real list" and width height outerRadius :: number
  assumes "map slice_value data = map Finite vs" and "0 < sum_list vs"
  defines "T \<equiv> sum_list vs"
      and "ps \<equiv> g_paths (AnimatedPieChart data width height outerRadius (Finite 1))"
  shows "length ps = length vs"
    and "i < length vs \<Longrightarrow> arc_start (ps ! i) = Finite (sum_list (take i (map (span_of T) vs)))"
    and "i < length vs \<Longrightarrow>
           arc_end (ps ! i) = Finite (sum_list (take i (map (span_of T) vs)) + 360 * vs ! i / T)"
    and "i < length vs \<Longrightarrow> js_sub (arc_end (ps ! i)) (arc_start (ps ! i)) = Finite (360 * vs ! i / T)"
    and "Suc i < length vs \<Longrightarrow> arc_start (ps ! Suc i) = arc_end (ps ! i)"
    and "sum_list (map (span_of T) vs) = 360"
proof -
  have T: "T \<noteq> 0" "total_of data = Finite T"
    using assms(2) total_of_finite [OF assms(1)] by (simp_all add: T_def)
  have len: "length data = length vs"
    using assms(1) by (metis length_map)
  show "length ps = length vs"
    by (simp add: ps_def AnimatedPieChart_def Let_def len)
  have nth: "arc_start (ps ! j) = Finite (sum_list (take j (map (span_of T) vs))) \<and>
      arc_end (ps ! j) = Finite (sum_list (take j (map (span_of T) vs)) + span_of T (vs ! j))"
    if "j < length vs" for j
    using slicePaths_finite_nth [OF assms(1) T(1) that, of width height outerRadius 1 0 0]
    by (simp add: ps_def AnimatedPieChart_def Let_def T(2))
  show "arc_start (ps ! i) = Finite (sum_list (take i (map (span_of T) vs)))" if "i < length vs"
    using nth [OF that] by simp
  show "arc_end (ps ! i) = Finite (sum_list (take i (map (span_of T) vs)) + 360 * vs ! i / T)"
    if "i < length vs"
    using nth [OF that] by (simp add: span_of_def)
  show "js_sub (arc_end (ps ! i)) (arc_start (ps ! i)) = Finite (360 * vs ! i / T)"
    if "i < length vs"
    using nth [OF that] by (simp add: js_sub_def span_of_def)
  show "arc_start (ps ! Suc i) = arc_end (ps ! i)" if "Suc i < length vs"
  proof -
    have i: "i < length vs" using that by simp
    have "take (Suc i) (map (span_of T) vs) = take i (map (span_of T) vs) @ [span_of T (vs ! i)]"
      using i by (simp add: take_Suc_conv_app_nth)
    then show ?thesis using nth [OF that] nth [OF i] by simp
  qed
  show "sum_list (map (span_of T) vs) = 360"
    using sum_list_span_of [OF T(1), of vs] T(1) by (simp add: T_def)
qed

text \<open>
  The animation, for finite values with a non-zero total: the start angle of a slice is
  the same at every progress, the end angle is the start angle plus the progress times
  the slice's full span, so at progress 0 the slice has no width and at progress 1 it
  ends where the fully drawn slice ends.
\<close>

lemma animation_scales_end_angle:
  fixes vs :: "real list" and width height outerRadius :: number
  assumes "map slice_value data = map Finite vs" and "sum_list vs \<noteq> 0" and "i < length vs"
  defines "T \<equiv> sum_list vs"
      and "ps \<equiv> (\<lambda>p. g_paths (AnimatedPieChart data width height outerRadius (Finite p)))"
  shows "arc_start (ps p ! i) = Finite (sum_list (take i (map (span_of T) vs)))"
    and "arc_end (ps p ! i) =
           Finite (sum_list (take i (map (span_of T) vs)) + p * span_of T (vs ! i))"
    and "arc_end (ps 0 ! i) = arc_start (ps 0 ! i)"
    and "arc_end (ps 1 ! i) =
           Finite (sum_list (take i (map (span_of T) vs)) + span_of T (vs ! i))"
proof -
  have T: "T \<noteq> 0" "total_of data = Finite T"
    using assms(2) total_of_finite [OF assms(1)] by (simp_all add: T_def)
  have nth: "arc_start (ps q ! i) = Finite (sum_list (take i (map (span_of T) vs))) \<and>
      arc_end (ps q ! i) = Finite (sum_list (take i (map (span_of T) vs)) + span_of T (vs ! i) * q)"
    for q
    using slicePaths_finite_nth [OF assms(1) T(1) assms(3), of width height outerRadius q 0 0]
    by (simp add: ps_def AnimatedPieChart_def Let_def T(2))
  show "arc_start (ps p ! i) = Finite (sum_list (take i (map (span_of T) vs)))"
    using nth [of p] by simp
  show "arc_end (ps p ! i) =
           Finite (sum_list (take i (map (span_of T) vs)) + p * span_of T (vs ! i))"
    using nth [of p] by (simp add: mult.commute)
  show "arc_end (ps 0 ! i) = arc_start (ps 0 ! i)"
    using nth [of 0] by simp
  show "arc_end (ps 1 ! i) =
           Finite (sum_list (take i (map (span_of T) vs)) + span_of T (vs ! i))"
    using nth [of 1] by simp
qed

text \<open>
  When every value is zero the total is zero, each slice angle is \<open>0 / 0 * 360 = NaN\<close>,
  and so is every end angle, at any progress.
\<close>

lemma slicePaths_zero_total:
  assumes "\<forall>s \<in> set data. slice_value s = Finite 0"
  shows "\<forall>e \<in> set (slicePaths width height outerRadius (Finite 0) progress cumulativeAngle
            index data). arc_end e = NaN"
  using assms
proof (induction data arbitrary: cumulativeAngle index)
  case Nil
  then show ?case by simp
next
  case (Cons s data)
  have n: "js_add cumulativeAngle NaN = NaN"
    by (cases cumulativeAngle) simp_all
  show ?case
    using Cons by (simp add: Let_def inf_of_sign_def n)
qed

lemma zero_total_angles_NaN:
  assumes "\<forall>s \<in> set data. slice_value s = Finite 0"
  shows "total_of data = Finite 0"
    and "\<forall>e \<in> set (g_paths (AnimatedPieChart data width height outerRadius progress)).
           arc_end e = NaN"
proof -
  have "map slice_value data = map Finite (replicate (length data) 0)"
    using assms by (induction data) simp_all
  from total_of_finite [OF this] show t: "total_of data = Finite 0"
    by (simp add: sum_list_replicate)
  show "\<forall>e \<in> set (g_paths (AnimatedPieChart data width height outerRadius progress)).
           arc_end e = NaN"
    using slicePaths_zero_total [OF assms] by (simp add: AnimatedPieChart_def Let_def t)
qed

text \<open>
  Where the chart starts. In the frame of the paths the first slice's start boundary meets
  the circle at twelve o'clock: \<open>polarToCartesian\<close> already subtracts 90 degrees from the
  angle. The group around the paths is rotated by another -90 degrees about the centre,
  which carries that point to nine o'clock on the screen.
\<close>

lemma polarToCartesian_zero:
  "polarToCartesian (Finite cx) (Finite cy) (Finite r) (Finite 0) = twelve_oclock cx cy r"
proof -
  have "(- 90) * pi / 180 = - (pi / 2)" by simp
  then show ?thesis
    by (simp add: polarToCartesian_def twelve_oclock_def js_sub_def Math_PI_def Let_def)
qed

lemma rotate_twelve_oclock:
  "rotate_about (Finite (- 90)) (Finite cx, Finite cy) (twelve_oclock cx cy r) =
     nine_oclock cx cy r"
proof -
  have "(- 90) * pi / 180 = - (pi / 2)" by simp
  then show ?thesis
    by (simp add: rotate_about_def twelve_oclock_def nine_oclock_def js_sub_def Math_PI_def
        Let_def)
qed

lemma first_slice_starts_at_nine_oclock:
  fixes wd ht r :: real and s :: SliceData and data :: "SliceData list" and progress :: number
  defines "svg \<equiv> AnimatedPieChart (s # data) (Finite wd) (Finite ht) (Finite r) progress"
  shows "arc_start (g_paths svg ! 0) = Finite 0"
    and "start_boundary (g_paths svg ! 0) =
           (PNum (fst (twelve_oclock (wd / 2) (ht / 2) r)),
            PNum (snd (twelve_oclock (wd / 2) (ht / 2) r)))"
    and "on_screen svg (twelve_oclock (wd / 2) (ht / 2) r) = nine_oclock (wd / 2) (ht / 2) r"
proof -
  show "arc_start (g_paths svg ! 0) = Finite 0"
    by (simp add: svg_def AnimatedPieChart_def Let_def)
  show "start_boundary (g_paths svg ! 0) =
           (PNum (fst (twelve_oclock (wd / 2) (ht / 2) r)),
            PNum (snd (twelve_oclock (wd / 2) (ht / 2) r)))"
    using polarToCartesian_zero [of "wd / 2" "ht / 2" r]
    by (simp add: svg_def AnimatedPieChart_def Let_def start_boundary_def describeArc_def)
  show "on_screen svg (twelve_oclock (wd / 2) (ht / 2) r) = nine_oclock (wd / 2) (ht / 2) r"
    using rotate_twelve_oclock [of "wd / 2" "ht / 2" r]
    by (simp add: svg_def AnimatedPieChart_def Let_def on_screen_def)
qed

text \<open>
  Claim C4 on the code. The counts of a result can all be zero; \<open>pieData\<close> then gives four
  slices of value 0. The renderer divides \<open>0\<close> by the total \<open>0\<close>: no exception is raised
  and four paths come out, but their end angles (and all start angles after the first)
  are \<open>NaN\<close>, not equal to their start angles, and the first path begins \<open>M NaN NaN\<close>.
\<close>

theorem zero_total_chart_has_NaN_angles:
  "(let data = pieData ''#F44336'' ''#4CAF50'' (Some zero_result);
        svg = AnimatedPieChart data (Finite 200) (Finite 200) (Finite 90) (Finite 1)
    in total_of data = Finite 0 \<and>
       js_div (Finite 0) (total_of data) = NaN \<and>
       map (\<lambda>e. (arc_start e, arc_end e)) (g_paths svg) =
         [(Finite 0, NaN), (NaN, NaN), (NaN, NaN), (NaN, NaN)] \<and>
       take 3 (path_d (g_paths svg ! 0)) = [PStr ''M'', PNum NaN, PNum NaN])"
  by (simp add: pieData_def zero_result_def AnimatedPieChart_def total_of_def Let_def
      inf_of_sign_def describeArc_def polarToCartesian_def js_sub_def Math_PI_def)

text \<open>
  Claim C5 on the code. The chart of the counts 3, 1, 10 and 40 (malicious, suspicious,
  harmless, undetected; total 54), fully drawn in a 200 by 200 box with radius 90. The
  angles are as the claim says: spans of 20, 20/3, 200/3 and 800/3 degrees, contiguous
  from 0 to 360. The position is not: the first slice's start boundary is the point
  (100, 10) of its path, twelve o'clock in the path's frame, and the rotated group shows
  that point at (10, 100), nine o'clock.
\<close>

theorem sample_chart_starts_at_nine_oclock:
  "(let svg = AnimatedPieChart (pieData ''#F44336'' ''#4CAF50'' (Some sample_result))
                (Finite 200) (Finite 200) (Finite 90) (Finite 1)
    in map (\<lambda>e. (arc_start e, arc_end e)) (g_paths svg) =
         [(Finite 0, Finite 20), (Finite 20, Finite (80 / 3)),
          (Finite (80 / 3), Finite (280 / 3)), (Finite (280 / 3), Finite 360)] \<and>
       start_boundary (g_paths svg ! 0) = (PNum (Finite 100), PNum (Finite 10)) \<and>
       (Finite 100, Finite 10) = twelve_oclock 100 100 90 \<and>
       on_screen svg (Finite 100, Finite 10) = (Finite 10, Finite 100) \<and>
       (Finite 10, Finite 100) = nine_oclock 100 100 90 \<and>
       on_screen svg (twelve_oclock 100 100 90) \<noteq> twelve_oclock 100 100 90)"
proof -
  let ?data = "pieData ''#F44336'' ''#4CAF50'' (Some sample_result)"
  let ?svg = "AnimatedPieChart ?data (Finite 200) (Finite 200) (Finite 90) (Finite 1)"
  have d: "?data = \<lparr>slice_value = Finite 3, slice_color = ''#F44336''\<rparr> #
      [\<lparr>slice_value = Finite 1, slice_color = ''#FFC107''\<rparr>,
       \<lparr>slice_value = Finite 10, slice_color = ''#4CAF50''\<rparr>,
       \<lparr>slice_value = Finite 40, slice_color = ''#9E9E9E''\<rparr>]"
    by (simp add: pieData_def sample_result_def)
  have a: "map (\<lambda>e. (arc_start e, arc_end e)) (g_paths ?svg) =
         [(Finite 0, Finite 20), (Finite 20, Finite (80 / 3)),
          (Finite (80 / 3), Finite (280 / 3)), (Finite (280 / 3), Finite 360)]"
    unfolding d by (simp add: AnimatedPieChart_def total_of_def Let_def)
  have t: "twelve_oclock (200 / 2) (200 / 2) 90 = (Finite 100, Finite 10)"
    "nine_oclock (200 / 2) (200 / 2) 90 = (Finite 10, Finite 100)"
    "twelve_oclock 100 100 90 = (Finite 100, Finite 10)"
    "nine_oclock 100 100 90 = (Finite 10, Finite 100)"
    by (simp_all add: twelve_oclock_def nine_oclock_def)
  have b: "start_boundary (g_paths ?svg ! 0) = (PNum (Finite 100), PNum (Finite 10))"
    unfolding d using first_slice_starts_at_nine_oclock(2) [where wd = 200 and ht = 200 and r = 90]
    by (simp add: t)
  have c: "on_screen ?svg (Finite 100, Finite 10) = (Finite 10, Finite 100)"
    unfolding d using first_slice_starts_at_nine_oclock(3) [where wd = 200 and ht = 200 and r = 90]
    by (simp add: t)
  show ?thesis
    unfolding Let_def using a b c by (simp add: t)
qed

text \<open>
  Claim C8 on the code. With all counts zero the animation does not start from slices of
  no width: at progress 0 the first slice runs from 0 to \<open>NaN\<close> and the others from \<open>NaN\<close>
  to \<open>NaN\<close>, and no end angle equals its start angle in the sense of \<open>===\<close>.
\<close>

theorem zero_total_chart_not_zero_width_at_start:
  "(let svg = AnimatedPieChart (pieData ''#F44336'' ''#4CAF50'' (Some zero_result))
                (Finite 200) (Finite 200) (Finite 90) (Finite 0)
    in map (\<lambda>e. (arc_start e, arc_end e)) (g_paths svg) =
         [(Finite 0, NaN), (NaN, NaN), (NaN, NaN), (NaN, NaN)] \<and>
       map (\<lambda>e. js_sub (arc_end e) (arc_start e)) (g_paths svg) = [NaN, NaN, NaN, NaN] \<and>
       list_all (\<lambda>e. \<not> js_strict_eq (arc_end e) (arc_start e)) (g_paths svg))"
  by (simp add: pieData_def zero_result_def AnimatedPieChart_def total_of_def Let_def
      inf_of_sign_def js_sub_def js_strict_eq_def)

end
